theory Spec2Isabelle
  imports Main
begin

section \<open>WhatsApp template validator: data model\<close>

text \<open>
  The embedding follows \<^verbatim>\<open>src/lib/validators/template-schema.ts\<close> (the types inferred
  from the Zod schemas) and \<^verbatim>\<open>src/lib/parsers/template-parser.ts\<close> (the position mapper
  of \<^verbatim>\<open>TemplateParser\<close> and the rule engine \<^verbatim>\<open>TemplateValidator\<close>).

  Conventions of the model:
  \<^item> a JavaScript string is a \<^typ>\<open>string\<close>; one \<^typ>\<open>char\<close> stands for one code unit,
    so \<^verbatim>\<open>text.length\<close> is \<^const>\<open>length\<close>;
  \<^item> an optional property is an \<^typ>\<open>'a option\<close>, \<^verbatim>\<open>undefined\<close> being \<^const>\<open>None\<close>;
  \<^item> \<^verbatim>\<open>messageSendTtlSeconds\<close> is an \<^typ>\<open>int\<close> (the data model of the specification
    calls it an integer);
  \<^item> a placeholder index read by \<^verbatim>\<open>parseInt\<close> is an exact \<^typ>\<open>nat\<close>.
\<close>

datatype TemplateCategory = MARKETING | UTILITY | AUTHENTICATION

datatype TemplateSubCategory = ORDER_STATUS

datatype HeaderFormat = TEXT | IMAGE | VIDEO | DOCUMENT | LOCATION

datatype ButtonType =
  QUICK_REPLY | URL | PHONE_NUMBER | COPY_CODE | OTP | CATALOG | MPM | FLOW
  | ORDER_DETAILS | VOICE_CALL

datatype OTPType = OTP_COPY_CODE | ONE_TAP | ZERO_TAP

datatype ComponentType = HEADER | BODY | FOOTER | BUTTONS | CAROUSEL | LIMITED_TIME_OFFER

datatype FlowAction = navigate | data_exchange

text \<open>\<^verbatim>\<open>ExampleSchema\<close>: three optional arrays.\<close>

record Example =
  header_text :: "string list option"
  header_url :: "string list option"
  body_text :: "string list list option"

text \<open>
  \<^verbatim>\<open>ButtonSchema\<close>, a union discriminated by \<^verbatim>\<open>type\<close>. The arguments of each
  constructor are the properties of the variant, in the order of its schema:
  \<^item> \<open>QuickReplyButton text\<close>
  \<^item> \<open>URLButton text url example\<close>
  \<^item> \<open>PhoneButton text phone_number\<close>
  \<^item> \<open>CopyCodeButton example\<close>
  \<^item> \<open>OTPButton otp_type text autofill_text package_name signature_hash
       zero_tap_terms_accepted\<close>
  \<^item> \<open>CatalogButton\<close>, \<open>MPMButton\<close>, \<open>OrderDetailsButton\<close>: the text is a literal
  \<^item> \<open>FlowButton text flow_id navigate_screen flow_action\<close>
  \<^item> \<open>VoiceCallButton text\<close>
\<close>

datatype Button =
  QuickReplyButton string
  | URLButton string string "string list option"
  | PhoneButton string string
  | CopyCodeButton "string list option"
  | OTPButton OTPType "string option" "string option" "string option" "string option"
      "bool option"
  | CatalogButton
  | MPMButton
  | FlowButton string string "string option" "FlowAction option"
  | OrderDetailsButton
  | VoiceCallButton string

text \<open>
  \<^verbatim>\<open>ComponentSchema\<close>, a union discriminated by \<^verbatim>\<open>type\<close>:
  \<^item> \<open>HeaderComponent format text example\<close>
  \<^item> \<open>BodyComponent text add_security_recommendation example\<close>
  \<^item> \<open>FooterComponent text code_expiration_minutes\<close>
  \<^item> \<open>ButtonsComponent buttons\<close>
\<close>

datatype TemplateComponent =
  HeaderComponent "HeaderFormat option" "string option" "Example option"
  | BodyComponent string "bool option" "Example option"
  | FooterComponent string "int option"
  | ButtonsComponent "Button list"

record WhatsAppTemplate =
  wabaId :: "string option"
  name :: string
  language :: string
  category :: TemplateCategory
  subCategory :: "TemplateSubCategory option"
  messageSendTtlSeconds :: "int option"
  components :: "TemplateComponent list"

subsection \<open>Property access on the unions\<close>

text \<open>
  The rule engine reads the components and buttons through \<^verbatim>\<open>as any\<close>; a property
  that the variant does not have reads as \<^verbatim>\<open>undefined\<close>.
\<close>

fun button_type :: "Button \<Rightarrow> ButtonType" where
  "button_type (QuickReplyButton _) = QUICK_REPLY"
| "button_type (URLButton _ _ _) = URL"
| "button_type (PhoneButton _ _) = PHONE_NUMBER"
| "button_type (CopyCodeButton _) = COPY_CODE"
| "button_type (OTPButton _ _ _ _ _ _) = OTP"
| "button_type CatalogButton = CATALOG"
| "button_type MPMButton = MPM"
| "button_type (FlowButton _ _ _ _) = FLOW"
| "button_type OrderDetailsButton = ORDER_DETAILS"
| "button_type (VoiceCallButton _) = VOICE_CALL"

fun button_text :: "Button \<Rightarrow> string option" where
  "button_text (QuickReplyButton t) = Some t"
| "button_text (URLButton t _ _) = Some t"
| "button_text (PhoneButton t _) = Some t"
| "button_text (CopyCodeButton _) = None"
| "button_text (OTPButton _ t _ _ _ _) = t"
| "button_text CatalogButton = Some ''View catalog''"
| "button_text MPMButton = Some ''View items''"
| "button_text (FlowButton t _ _ _) = Some t"
| "button_text OrderDetailsButton = Some ''Review and Pay''"
| "button_text (VoiceCallButton t) = Some t"

fun button_url :: "Button \<Rightarrow> string option" where
  "button_url (URLButton _ u _) = Some u"
| "button_url _ = None"

fun button_otp_type :: "Button \<Rightarrow> OTPType option" where
  "button_otp_type (OTPButton ot _ _ _ _ _) = Some ot"
| "button_otp_type _ = None"

fun button_package_name :: "Button \<Rightarrow> string option" where
  "button_package_name (OTPButton _ _ _ p _ _) = p"
| "button_package_name _ = None"

fun button_zero_tap_terms_accepted :: "Button \<Rightarrow> bool option" where
  "button_zero_tap_terms_accepted (OTPButton _ _ _ _ _ z) = z"
| "button_zero_tap_terms_accepted _ = None"

fun component_type :: "TemplateComponent \<Rightarrow> ComponentType" where
  "component_type (HeaderComponent _ _ _) = HEADER"
| "component_type (BodyComponent _ _ _) = BODY"
| "component_type (FooterComponent _ _) = FOOTER"
| "component_type (ButtonsComponent _) = BUTTONS"

fun component_format :: "TemplateComponent \<Rightarrow> HeaderFormat option" where
  "component_format (HeaderComponent f _ _) = f"
| "component_format _ = None"

fun component_text :: "TemplateComponent \<Rightarrow> string option" where
  "component_text (HeaderComponent _ t _) = t"
| "component_text (BodyComponent t _ _) = Some t"
| "component_text (FooterComponent t _) = Some t"
| "component_text (ButtonsComponent _) = None"

fun component_example :: "TemplateComponent \<Rightarrow> Example option" where
  "component_example (HeaderComponent _ _ e) = e"
| "component_example (BodyComponent _ _ e) = e"
| "component_example _ = None"

fun component_add_security_recommendation :: "TemplateComponent \<Rightarrow> bool option" where
  "component_add_security_recommendation (BodyComponent _ a _) = a"
| "component_add_security_recommendation _ = None"

fun component_buttons :: "TemplateComponent \<Rightarrow> Button list option" where
  "component_buttons (ButtonsComponent bs) = Some bs"
| "component_buttons _ = None"

text \<open>JavaScript truthiness of an optional string, boolean and number.\<close>

fun truthy_string :: "string option \<Rightarrow> bool" where
  "truthy_string None = False"
| "truthy_string (Some t) = (t \<noteq> [])"

fun truthy_bool :: "bool option \<Rightarrow> bool" where
  "truthy_bool None = False"
| "truthy_bool (Some b) = b"

fun truthy_number :: "int option \<Rightarrow> bool" where
  "truthy_number None = False"
| "truthy_number (Some n) = (n \<noteq> 0)"

text \<open>The enumeration values as the strings they are in the source.\<close>

fun ComponentType_string :: "ComponentType \<Rightarrow> string" where
  "ComponentType_string HEADER = ''HEADER''"
| "ComponentType_string BODY = ''BODY''"
| "ComponentType_string FOOTER = ''FOOTER''"
| "ComponentType_string BUTTONS = ''BUTTONS''"
| "ComponentType_string CAROUSEL = ''CAROUSEL''"
| "ComponentType_string LIMITED_TIME_OFFER = ''LIMITED_TIME_OFFER''"

fun HeaderFormat_string :: "HeaderFormat \<Rightarrow> string" where
  "HeaderFormat_string TEXT = ''TEXT''"
| "HeaderFormat_string IMAGE = ''IMAGE''"
| "HeaderFormat_string VIDEO = ''VIDEO''"
| "HeaderFormat_string DOCUMENT = ''DOCUMENT''"
| "HeaderFormat_string LOCATION = ''LOCATION''"

fun TemplateCategory_string :: "TemplateCategory \<Rightarrow> string" where
  "TemplateCategory_string MARKETING = ''MARKETING''"
| "TemplateCategory_string UTILITY = ''UTILITY''"
| "TemplateCategory_string AUTHENTICATION = ''AUTHENTICATION''"

section \<open>String operations\<close>

text \<open>
  \<^verbatim>\<open>toLowerCase\<close> and the case folding of a regular expression with the flag
  \<^verbatim>\<open>i\<close>: without the flag \<^verbatim>\<open>u\<close> no character outside ASCII folds onto an ASCII letter,
  and the source lower-cases enumeration names only.
\<close>

definition toLowerCase_char :: "char \<Rightarrow> char" where
  "toLowerCase_char c =
     (case map_of (zip ''ABCDEFGHIJKLMNOPQRSTUVWXYZ'' ''abcdefghijklmnopqrstuvwxyz'') c of
        Some l \<Rightarrow> l
      | None \<Rightarrow> c)"

definition toLowerCase :: "string \<Rightarrow> string" where
  "toLowerCase s = map toLowerCase_char s"

text \<open>\<^verbatim>\<open>url.match(/suffix$/i)\<close> for a literal suffix: the text ends with it, ignoring case.\<close>

definition ends_with_ci :: "string \<Rightarrow> string \<Rightarrow> bool" where
  "ends_with_ci text suffix =
     (length suffix \<le> length text \<and>
      toLowerCase (drop (length text - length suffix) text) = toLowerCase suffix)"

text \<open>Decimal rendering of a number in a template literal, and \<^verbatim>\<open>Array.join\<close>.\<close>

definition digit_char :: "nat \<Rightarrow> char" where
  "digit_char d = ''0123456789'' ! d"

fun string_of_nat :: "nat \<Rightarrow> string" where
  "string_of_nat n =
     (if n < 10 then [digit_char n] else string_of_nat (n div 10) @ [digit_char (n mod 10)])"

declare string_of_nat.simps [simp del]

fun join :: "string \<Rightarrow> string list \<Rightarrow> string" where
  "join sep [] = []"
| "join sep [x] = x"
| "join sep (x # y # ys) = x @ sep @ join sep (y # ys)"

text \<open>\<^verbatim>\<open>String.split('\n')\<close>: the segments between the newlines, at least one.\<close>

definition newline :: char where
  "newline = CHR 0x0A"

fun split_newline :: "string \<Rightarrow> string list" where
  "split_newline [] = [[]]"
| "split_newline (c # cs) =
     (if c = newline then [] # split_newline cs
      else (case split_newline cs of
              [] \<Rightarrow> [[c]]
            | l # ls \<Rightarrow> (c # l) # ls))"

text \<open>
  \<^verbatim>\<open>text.substring(0, position)\<close> for an integer position: the end is clamped to
  \<open>[0, text.length]\<close>.
\<close>

definition substring0 :: "string \<Rightarrow> int \<Rightarrow> string" where
  "substring0 text position = take (nat (min (max position 0) (int (length text)))) text"

subsection \<open>The placeholder pattern\<close>

text \<open>
  \<^verbatim>\<open>/\{\{(\d+)\}\}/g\<close>. \<open>match_variable s\<close> matches the pattern at the start of \<open>s\<close>
  and returns the captured digits and the rest of the text behind the match.
  \<^verbatim>\<open>\d+\<close> is greedy and a closing brace is no digit, so backtracking cannot find a
  match that the longest run of digits misses.
\<close>

definition is_digit :: "char \<Rightarrow> bool" where
  "is_digit c = (c \<in> set ''0123456789'')"

fun match_variable :: "string \<Rightarrow> (string \<times> string) option" where
  "match_variable (a # b # rest) =
     (if a = CHR ''{'' \<and> b = CHR ''{'' then
        (let digits = takeWhile is_digit rest; after = dropWhile is_digit rest
         in if digits \<noteq> [] \<and> take 2 after = ''}}'' then Some (digits, drop 2 after)
            else None)
      else None)"
| "match_variable _ = None"

text \<open>
  \<^verbatim>\<open>Array.from(text.matchAll(variableRegex))\<close>, keeping group 1 of every match: the
  scan resumes behind a match and one character further where there is none.
\<close>

function matchAll_variables :: "string \<Rightarrow> string list" where
  "matchAll_variables [] = []"
| "matchAll_variables (c # cs) =
     (case match_variable (c # cs) of
        Some (digits, rest) \<Rightarrow> digits # matchAll_variables rest
      | None \<Rightarrow> matchAll_variables cs)"
  by pat_completeness auto

termination matchAll_variables
proof (relation "measure length")
  fix c :: char and cs :: string and x2 :: "string \<times> string" and x y :: string
  assume m: "match_variable (c # cs) = Some x2" "(x, y) = x2"
  show "(y, c # cs) \<in> measure length"
  proof (cases cs)
    case Nil
    with m show ?thesis by simp
  next
    case (Cons b r)
    have "length (dropWhile is_digit r) \<le> length r"
      by (rule length_dropWhile_le)
    with m Cons show ?thesis
      by (auto simp: Let_def split: if_splits)
  qed
qed simp_all

text \<open>\<^verbatim>\<open>parseInt\<close> of a run of decimal digits.\<close>

definition digit_value :: "char \<Rightarrow> nat" where
  "digit_value c = of_char c - 48"

definition parseInt :: "string \<Rightarrow> nat" where
  "parseInt digits = fold (\<lambda>c n. 10 * n + digit_value c) digits 0"

text \<open>\<^verbatim>\<open>Array.indexOf\<close>: the first position of the value, or \<open>-1\<close>.\<close>

fun indexOf :: "'a list \<Rightarrow> 'a \<Rightarrow> int" where
  "indexOf [] v = -1"
| "indexOf (x # xs) v =
     (if x = v then 0 else (let i = indexOf xs v in if i = -1 then -1 else i + 1))"

section \<open>The position mapper of \<^verbatim>\<open>TemplateParser\<close>\<close>

text \<open>
  \<^verbatim>\<open>getLineAndColumn(text, position)\<close>. The object \<^verbatim>\<open>{ line, column }\<close> it returns is
  the pair \<open>(line, column)\<close>. \<^verbatim>\<open>split\<close> returns at least one segment, so the read of
  the last segment is in range; the model returns column 1 in the other branch only to
  be total.
\<close>

definition getLineAndColumn :: "string \<Rightarrow> int \<Rightarrow> nat \<times> nat" where
  "getLineAndColumn text position =
     (let lines = split_newline (substring0 text position)
      in (length lines,
          (case lines of [] \<Rightarrow> 1 | _ # _ \<Rightarrow> length (lines ! (length lines - 1)) + 1)))"

section \<open>The rule engine \<^verbatim>\<open>TemplateValidator\<close>\<close>

datatype Severity = severity_error | severity_warning | severity_info

record ValidationError =
  field :: string
  message :: string
  suggestion :: "string option"
  line :: "nat option"
  severity :: Severity

text \<open>
  The three private accumulators of the class. \<^verbatim>\<open>ValidationResult\<close> has the same three
  sequences and the verdict, so it is the record extended by \<open>isValid\<close>.
\<close>

record TemplateValidator =
  errors :: "ValidationError list"
  warnings :: "ValidationError list"
  info :: "ValidationError list"

record ValidationResult = TemplateValidator +
  isValid :: bool

definition addError ::
  "string \<Rightarrow> string \<Rightarrow> string option \<Rightarrow> nat option \<Rightarrow> TemplateValidator \<Rightarrow> TemplateValidator"
where
  "addError f m sg l s =
     s\<lparr>errors := errors s @
          [\<lparr>field = f, message = m, suggestion = sg, line = l, severity = severity_error\<rparr>]\<rparr>"

definition addWarning ::
  "string \<Rightarrow> string \<Rightarrow> string option \<Rightarrow> nat option \<Rightarrow> TemplateValidator \<Rightarrow> TemplateValidator"
where
  "addWarning f m sg l s =
     s\<lparr>warnings := warnings s @
          [\<lparr>field = f, message = m, suggestion = sg, line = l, severity = severity_warning\<rparr>]\<rparr>"

definition addInfo ::
  "string \<Rightarrow> string \<Rightarrow> string option \<Rightarrow> nat option \<Rightarrow> TemplateValidator \<Rightarrow> TemplateValidator"
where
  "addInfo f m sg l s =
     s\<lparr>info := info s @
          [\<lparr>field = f, message = m, suggestion = sg, line = l, severity = severity_info\<rparr>]\<rparr>"

definition is_type :: "ComponentType \<Rightarrow> TemplateComponent \<Rightarrow> bool" where
  "is_type ty c = (component_type c = ty)"

subsection \<open>Pass 1: basic structure\<close>

text \<open>
  The separator of \<^verbatim>\<open>componentOrder.join\<close> is a space, the arrow U+2192 and a space; the
  arrow is written as the three bytes of its UTF-8 form.
\<close>

definition arrow_separator :: string where
  "arrow_separator = [CHR '' '', CHR 0xE2, CHR 0x86, CHR 0x92, CHR '' '']"

definition componentOrder :: "ComponentType list" where
  "componentOrder = [HEADER, BODY, FOOTER, BUTTONS]"

text \<open>The callback of the \<^verbatim>\<open>forEach\<close>; the state carries \<^verbatim>\<open>lastValidIndex\<close>.\<close>

definition componentOrder_step ::
  "nat \<times> TemplateComponent \<Rightarrow> int \<times> TemplateValidator \<Rightarrow> int \<times> TemplateValidator"
where
  "componentOrder_step ic ls =
     (let index = fst ic; component = snd ic; lastValidIndex = fst ls; s = snd ls;
          currentIndex = indexOf componentOrder (component_type component)
      in (max lastValidIndex currentIndex,
          (if currentIndex < lastValidIndex then
             addWarning (''components['' @ string_of_nat index @ '']'')
               (''Component '' @ ComponentType_string (component_type component) @
                '' should come before previous components'')
               (Some (''Reorder components: '' @
                      join arrow_separator (map ComponentType_string componentOrder)))
               None s
           else s)))"

definition validateBasicStructure :: "WhatsAppTemplate \<Rightarrow> TemplateValidator \<Rightarrow> TemplateValidator" where
  "validateBasicStructure template s =
     (let bodyComponent = find (is_type BODY) (components template);
          s1 = (if bodyComponent = None then
                  addError ''components'' ''Template must have a BODY component''
                    (Some ''Add a BODY component with your message text'') None s
                else s)
      in snd (fold componentOrder_step (enumerate 0 (components template)) (-1, s1)))"

subsection \<open>Pass 2: category policy\<close>

text \<open>
  The guard \<^verbatim>\<open>ttl && (ttl < lo || ttl > hi)\<close> of the three category checks: a missing
  TTL and the TTL 0 are falsy.
\<close>

definition ttl_outside :: "int option \<Rightarrow> int \<Rightarrow> int \<Rightarrow> bool" where
  "ttl_outside ttl lo hi = (truthy_number ttl \<and> (case ttl of None \<Rightarrow> False | Some n \<Rightarrow> n < lo \<or> n > hi))"

definition validateAuthenticationTemplate ::
  "WhatsAppTemplate \<Rightarrow> TemplateValidator \<Rightarrow> TemplateValidator"
where
  "validateAuthenticationTemplate template s =
     (let bodyComponent = find (is_type BODY) (components template);
          buttonComponent = find (is_type BUTTONS) (components template);
          s1 = (case buttonComponent of
                  None \<Rightarrow> s
                | Some bc \<Rightarrow>
                    (let hasOTPButton =
                           (case component_buttons bc of
                              None \<Rightarrow> False
                            | Some bs \<Rightarrow> list_ex (\<lambda>b. button_type b = OTP) bs)
                     in if \<not> hasOTPButton then
                          addWarning ''buttons''
                            ''Authentication templates typically use OTP buttons for better user experience''
                            (Some ''Consider adding an OTP button (COPY_CODE, ONE_TAP, or ZERO_TAP)'')
                            None s
                        else s));
          s2 = (if ttl_outside (messageSendTtlSeconds template) 30 900 then
                  addError ''messageSendTtlSeconds''
                    ''Authentication templates TTL must be between 30 seconds and 15 minutes (900 seconds)''
                    (Some ''Set TTL between 30 and 900 seconds'') None s1
                else s1)
      in (case bodyComponent of
            None \<Rightarrow> s2
          | Some bc \<Rightarrow>
              if \<not> truthy_bool (component_add_security_recommendation bc) then
                addInfo ''body.add_security_recommendation''
                  ''Consider adding security recommendation for authentication templates''
                  (Some ''Set add_security_recommendation to true'') None s2
              else s2))"

definition validateUtilityTemplate ::
  "WhatsAppTemplate \<Rightarrow> TemplateValidator \<Rightarrow> TemplateValidator"
where
  "validateUtilityTemplate template s =
     (let s1 = (if ttl_outside (messageSendTtlSeconds template) 30 43200 then
                  addError ''messageSendTtlSeconds''
                    ''Utility templates TTL must be between 30 seconds and 12 hours (43200 seconds)''
                    (Some ''Set TTL between 30 and 43200 seconds'') None s
                else s)
      in if subCategory template = Some ORDER_STATUS then
           (let buttonComponent = find (is_type BUTTONS) (components template)
            in if buttonComponent \<noteq> None then
                 addWarning ''buttons'' ''Order status templates typically don't need buttons''
                   (Some ''Consider removing buttons for order status updates'') None s1
               else s1)
         else s1)"

definition validateMarketingTemplate ::
  "WhatsAppTemplate \<Rightarrow> TemplateValidator \<Rightarrow> TemplateValidator"
where
  "validateMarketingTemplate template s =
     (let s1 = (if ttl_outside (messageSendTtlSeconds template) 43200 2592000 then
                  addError ''messageSendTtlSeconds''
                    ''Marketing templates TTL must be between 12 hours (43200 seconds) and 30 days (2592000 seconds)''
                    (Some ''Set TTL between 43200 and 2592000 seconds'') None s
                else s);
          headerComponent = find (is_type HEADER) (components template);
          s2 = (if headerComponent = None then
                  addInfo ''header'' ''Marketing templates perform better with media headers''
                    (Some ''Consider adding an IMAGE, VIDEO, or DOCUMENT header'') None s1
                else s1);
          buttonComponent = find (is_type BUTTONS) (components template)
      in if buttonComponent = None then
           addInfo ''buttons'' ''Marketing templates benefit from call-to-action buttons''
             (Some ''Consider adding URL or QUICK_REPLY buttons'') None s2
         else s2)"

definition validateCategorySpecificRules ::
  "WhatsAppTemplate \<Rightarrow> TemplateValidator \<Rightarrow> TemplateValidator"
where
  "validateCategorySpecificRules template s =
     (case category template of
        AUTHENTICATION \<Rightarrow> validateAuthenticationTemplate template s
      | UTILITY \<Rightarrow> validateUtilityTemplate template s
      | MARKETING \<Rightarrow> validateMarketingTemplate template s)"

subsection \<open>Pass 3: component combinations\<close>

text \<open>\<^verbatim>\<open>example?.header_url\<close>: \<^verbatim>\<open>undefined\<close> when either is missing.\<close>

definition example_header_url :: "Example option \<Rightarrow> string list option" where
  "example_header_url ex = (case ex of None \<Rightarrow> None | Some e \<Rightarrow> header_url e)"

definition otpRequirements_step :: "nat \<times> Button \<Rightarrow> TemplateValidator \<Rightarrow> TemplateValidator" where
  "otpRequirements_step ib s =
     (let index = fst ib; button = snd ib;
          s1 = (if button_type button = OTP \<and> button_otp_type button = Some ONE_TAP \<and>
                   \<not> truthy_string (button_package_name button) then
                  addError (''buttons['' @ string_of_nat index @ ''].package_name'')
                    ''ONE_TAP OTP buttons require package_name''
                    (Some ''Add your Android app's package name'') None s
                else s)
      in if button_type button = OTP \<and> button_otp_type button = Some ZERO_TAP \<and>
            \<not> truthy_bool (button_zero_tap_terms_accepted button) then
           addError (''buttons['' @ string_of_nat index @ ''].zero_tap_terms_accepted'')
             ''ZERO_TAP OTP buttons require terms acceptance''
             (Some ''Set zero_tap_terms_accepted to true'') None s1
         else s1)"

definition validateComponentCombinations ::
  "WhatsAppTemplate \<Rightarrow> TemplateValidator \<Rightarrow> TemplateValidator"
where
  "validateComponentCombinations template s =
     (let headerComponent = find (is_type HEADER) (components template);
          buttonComponent = find (is_type BUTTONS) (components template);
          s2 = (case headerComponent of
                  None \<Rightarrow> s
                | Some hc \<Rightarrow>
                    (let s1 = (if component_format hc = Some TEXT \<and>
                                  \<not> truthy_string (component_text hc) then
                                 addError ''header.text''
                                   ''TEXT header format requires text content''
                                   (Some ''Add text or change format'') None s
                               else s)
                     in (case component_format hc of
                           None \<Rightarrow> s1
                         | Some fmt \<Rightarrow>
                             if fmt \<noteq> TEXT \<and>
                                example_header_url (component_example hc) = None then
                               addError ''header.example.header_url''
                                 (HeaderFormat_string fmt @
                                  '' header format requires example URL'')
                                 (Some ''Add example URL for media header'') None s1
                             else s1)))
      in (case buttonComponent of
            None \<Rightarrow> s2
          | Some bc \<Rightarrow>
              (case component_buttons bc of
                 None \<Rightarrow> s2
               | Some bs \<Rightarrow> fold otpRequirements_step (enumerate 0 bs) s2)))"

subsection \<open>Pass 4: variable usage\<close>

text \<open>
  The loop over the sorted indices, which stops at the first index that is not its
  position plus one: \<open>first_out_of_sequence i vs\<close> tells whether the loop, standing at
  position \<open>i\<close> with \<open>vs\<close> still to read, finds such an index.
\<close>

fun first_out_of_sequence :: "nat \<Rightarrow> nat list \<Rightarrow> bool" where
  "first_out_of_sequence i [] = False"
| "first_out_of_sequence i (v # vs) =
     (if v \<noteq> i + 1 then True else first_out_of_sequence (i + 1) vs)"

definition validateVariablesInText :: "string \<Rightarrow> string \<Rightarrow> TemplateValidator \<Rightarrow> TemplateValidator" where
  "validateVariablesInText text fld s =
     (let matches = matchAll_variables text
      in if length matches > 0 then
           (let variables = sort (map parseInt matches);
                s1 = (if first_out_of_sequence 0 variables then
                        addError fld
                          (''Variables must be sequential starting from {{1}}. Found: {{'' @
                           join ''}}, {{'' (map string_of_nat variables) @ ''}}'')
                          (Some ''Use variables {{1}}, {{2}}, {{3}}, etc. in sequence'') None s
                      else s);
                uniqueVariables = remdups variables
            in if length uniqueVariables \<noteq> length variables then
                 addWarning fld ''Duplicate variables found''
                   (Some ''Each variable should be used only once per component'') None s1
               else s1)
         else s)"

definition urlVariables_step :: "nat \<times> Button \<Rightarrow> TemplateValidator \<Rightarrow> TemplateValidator" where
  "urlVariables_step ib s =
     (let buttonIndex = fst ib; button = snd ib
      in if button_type button = URL \<and> truthy_string (button_url button) then
           (case button_url button of
              None \<Rightarrow> s
            | Some url \<Rightarrow>
                validateVariablesInText url (''buttons['' @ string_of_nat buttonIndex @ ''].url'') s)
         else s)"

definition variableUsage_step :: "TemplateComponent \<Rightarrow> TemplateValidator \<Rightarrow> TemplateValidator" where
  "variableUsage_step component s =
     (let s1 = (if component_type component = BODY \<or>
                   (component_type component = HEADER \<and> component_format component = Some TEXT) then
                  (case component_text component of
                     None \<Rightarrow> s
                   | Some text \<Rightarrow>
                       if text \<noteq> [] then
                         validateVariablesInText text
                           (toLowerCase (ComponentType_string (component_type component)) @ ''.text'') s
                       else s)
                else s)
      in if component_type component = BUTTONS then
           (case component_buttons component of
              None \<Rightarrow> s1
            | Some bs \<Rightarrow> fold urlVariables_step (enumerate 0 bs) s1)
         else s1)"

definition validateVariableUsage :: "WhatsAppTemplate \<Rightarrow> TemplateValidator \<Rightarrow> TemplateValidator" where
  "validateVariableUsage template s = fold variableUsage_step (components template) s"

subsection \<open>Pass 5: character limits\<close>

text \<open>
  The proximity test \<^verbatim>\<open>text.length > maxLength * 0.9\<close> is written over the integers;
  for the three limits of the source (60, 1024 and 25) the floating-point product
  compares with a length as nine tenths of the limit does.
\<close>

definition validateTextLength :: "string \<Rightarrow> nat \<Rightarrow> string \<Rightarrow> TemplateValidator \<Rightarrow> TemplateValidator" where
  "validateTextLength text maxLength fld s =
     (let s1 = (if length text > maxLength then
                  addError fld
                    (''Text exceeds '' @ string_of_nat maxLength @ '' character limit (current: '' @
                     string_of_nat (length text) @ '')'')
                    (Some (''Reduce text by '' @ string_of_nat (length text - maxLength) @
                           '' characters''))
                    None s
                else s)
      in if 10 * length text > 9 * maxLength then
           addWarning fld
             (''Text is close to '' @ string_of_nat maxLength @ '' character limit (current: '' @
              string_of_nat (length text) @ '')'')
             (Some ''Consider shortening the text to avoid future issues'') None s1
         else s1)"

definition buttonTextLength_step :: "nat \<times> Button \<Rightarrow> TemplateValidator \<Rightarrow> TemplateValidator" where
  "buttonTextLength_step ib s =
     (let buttonIndex = fst ib; button = snd ib
      in (case button_text button of
            None \<Rightarrow> s
          | Some text \<Rightarrow>
              if text \<noteq> [] then
                validateTextLength text 25 (''buttons['' @ string_of_nat buttonIndex @ ''].text'') s
              else s))"

fun characterLimits_step :: "TemplateComponent \<Rightarrow> TemplateValidator \<Rightarrow> TemplateValidator" where
  "characterLimits_step (HeaderComponent fmt text ex) s =
     (if fmt = Some TEXT \<and> truthy_string text then
        (case text of None \<Rightarrow> s | Some t \<Rightarrow> validateTextLength t 60 ''header.text'' s)
      else s)"
| "characterLimits_step (BodyComponent text sec ex) s = validateTextLength text 1024 ''body.text'' s"
| "characterLimits_step (FooterComponent text exp) s = validateTextLength text 60 ''footer.text'' s"
| "characterLimits_step (ButtonsComponent bs) s = fold buttonTextLength_step (enumerate 0 bs) s"

definition validateCharacterLimits :: "WhatsAppTemplate \<Rightarrow> TemplateValidator \<Rightarrow> TemplateValidator" where
  "validateCharacterLimits template s = fold characterLimits_step (components template) s"

subsection \<open>Pass 6: button combinations\<close>

text \<open>
  \<^verbatim>\<open>buttonCounts\<close> is an object keyed by the button type; a type that no button has is
  absent from it, and \<^verbatim>\<open>undefined > n\<close> is false.
\<close>

definition countButton :: "Button \<Rightarrow> (ButtonType \<rightharpoonup> nat) \<Rightarrow> (ButtonType \<rightharpoonup> nat)" where
  "countButton button counts =
     counts(button_type button \<mapsto>
       (case counts (button_type button) of None \<Rightarrow> 0 | Some n \<Rightarrow> n) + 1)"

definition count_exceeds :: "nat option \<Rightarrow> nat \<Rightarrow> bool" where
  "count_exceeds c n = (case c of None \<Rightarrow> False | Some k \<Rightarrow> k > n)"

definition quickReplyIndices :: "Button list \<Rightarrow> int list" where
  "quickReplyIndices buttons =
     filter (\<lambda>i. i \<noteq> -1)
       (map (\<lambda>ib. if button_type (snd ib) = QUICK_REPLY then int (fst ib) else -1)
            (enumerate 0 buttons))"

definition isGrouped :: "int list \<Rightarrow> bool" where
  "isGrouped indices =
     list_all (\<lambda>ii. fst ii = 0 \<or> snd ii = indices ! (fst ii - 1) + 1) (enumerate 0 indices)"

definition validateButtonCombinations :: "WhatsAppTemplate \<Rightarrow> TemplateValidator \<Rightarrow> TemplateValidator" where
  "validateButtonCombinations template s =
     (case find (is_type BUTTONS) (components template) of
        None \<Rightarrow> s
      | Some buttonComponent \<Rightarrow>
          (case component_buttons buttonComponent of
             None \<Rightarrow> s
           | Some buttons \<Rightarrow>
               (let buttonCounts = fold countButton buttons Map.empty;
                    s1 = (if count_exceeds (buttonCounts PHONE_NUMBER) 1 then
                            addError ''buttons'' ''Maximum 1 phone number button allowed''
                              (Some ''Remove extra phone number buttons'') None s
                          else s);
                    s2 = (if count_exceeds (buttonCounts URL) 2 then
                            addError ''buttons'' ''Maximum 2 URL buttons allowed''
                              (Some ''Remove extra URL buttons'') None s1
                          else s1);
                    s3 = (if count_exceeds (buttonCounts COPY_CODE) 1 then
                            addError ''buttons'' ''Maximum 1 copy code button allowed''
                              (Some ''Remove extra copy code buttons'') None s2
                          else s2);
                    indices = quickReplyIndices buttons
                in if length indices > 0 then
                     (if \<not> isGrouped indices then
                        addError ''buttons'' ''Quick reply buttons must be grouped together''
                          (Some ''Move all quick reply buttons to the beginning or end of the button list'')
                          None s3
                      else s3)
                   else s3)))"

subsection \<open>Pass 7: media requirements\<close>

definition validateMediaRequirements :: "WhatsAppTemplate \<Rightarrow> TemplateValidator \<Rightarrow> TemplateValidator" where
  "validateMediaRequirements template s =
     (case find (is_type HEADER) (components template) of
        None \<Rightarrow> s
      | Some headerComponent \<Rightarrow>
          (case component_format headerComponent of
             None \<Rightarrow> s
           | Some fmt \<Rightarrow>
               if fmt = TEXT then s
               else
                 (case example_header_url (component_example headerComponent) of
                    None \<Rightarrow>
                      addError ''header.example.header_url''
                        (HeaderFormat_string fmt @ '' header requires example URL'')
                        (Some ''Add a valid example URL for the media'') None s
                  | Some [] \<Rightarrow>
                      addError ''header.example.header_url''
                        (HeaderFormat_string fmt @ '' header requires example URL'')
                        (Some ''Add a valid example URL for the media'') None s
                  | Some (url # _) \<Rightarrow>
                      if url = [] then
                        addError ''header.example.header_url''
                          (HeaderFormat_string fmt @ '' header requires example URL'')
                          (Some ''Add a valid example URL for the media'') None s
                      else
                        (case fmt of
                           IMAGE \<Rightarrow>
                             if \<not> (ends_with_ci url ''.jpg'' \<or> ends_with_ci url ''.jpeg'' \<or>
                                   ends_with_ci url ''.png'') then
                               addError ''header.example.header_url''
                                 ''Image header URL must end with .jpg, .jpeg, or .png''
                                 (Some ''Use a valid image file extension'') None s
                             else s
                         | VIDEO \<Rightarrow>
                             if \<not> ends_with_ci url ''.mp4'' then
                               addError ''header.example.header_url''
                                 ''Video header URL must end with .mp4''
                                 (Some ''Use a valid MP4 video file'') None s
                             else s
                         | DOCUMENT \<Rightarrow>
                             if \<not> ends_with_ci url ''.pdf'' then
                               addError ''header.example.header_url''
                                 ''Document header URL must end with .pdf''
                                 (Some ''Use a valid PDF document file'') None s
                             else s
                         | _ \<Rightarrow> s))))"

subsection \<open>Pass 8: TTL settings\<close>

definition validateTTLSettings :: "WhatsAppTemplate \<Rightarrow> TemplateValidator \<Rightarrow> TemplateValidator" where
  "validateTTLSettings template s =
     (if \<not> truthy_number (messageSendTtlSeconds template) then
        addInfo ''messageSendTtlSeconds''
          ''Consider setting a TTL (time-to-live) for your template''
          (Some ''Add messageSendTtlSeconds based on your template category'') None s
      else
        (case messageSendTtlSeconds template of
           None \<Rightarrow> s
         | Some ttl \<Rightarrow>
             (let s1 = (if ttl < 30 then
                          addError ''messageSendTtlSeconds'' ''TTL cannot be less than 30 seconds''
                            (Some ''Set TTL to at least 30 seconds'') None s
                        else s)
              in if ttl > 2592000 then
                   addError ''messageSendTtlSeconds''
                     ''TTL cannot exceed 30 days (2592000 seconds)''
                     (Some ''Set TTL to maximum 2592000 seconds'') None s1
                 else s1)))"

subsection \<open>\<^verbatim>\<open>validate\<close>\<close>

definition empty_validator :: TemplateValidator where
  "empty_validator = \<lparr>errors = [], warnings = [], info = []\<rparr>"

definition run_passes :: "WhatsAppTemplate \<Rightarrow> TemplateValidator" where
  "run_passes template =
     (validateTTLSettings template
     (validateMediaRequirements template
     (validateButtonCombinations template
     (validateCharacterLimits template
     (validateVariableUsage template
     (validateComponentCombinations template
     (validateCategorySpecificRules template
     (validateBasicStructure template empty_validator))))))))"

definition validate :: "WhatsAppTemplate \<Rightarrow> ValidationResult" where
  "validate template =
     (let s = run_passes template
      in \<lparr>errors = errors s, warnings = warnings s, info = info s,
          isValid = (length (errors s) = 0)\<rparr>)"

section \<open>The example templates of \<^verbatim>\<open>TemplateParser\<close>\<close>

definition generateExampleTemplate :: "TemplateCategory \<Rightarrow> WhatsAppTemplate" where
  "generateExampleTemplate cat =
     (let baseName = ''example_'' @ toLowerCase (TemplateCategory_string cat) @ ''_template''
      in (case cat of
            AUTHENTICATION \<Rightarrow>
              \<lparr>wabaId = None, name = baseName, language = ''en_US'', category = cat,
               subCategory = None, messageSendTtlSeconds = Some 600,
               components =
                 [BodyComponent
                    ''{{1}} is your verification code. For your security, do not share this code.''
                    (Some True)
                    (Some \<lparr>header_text = None, header_url = None,
                           body_text = Some [[''123456'']]\<rparr>),
                  FooterComponent ''This code expires in 5 minutes.'' (Some 5),
                  ButtonsComponent
                    [OTPButton OTP_COPY_CODE (Some ''Copy Code'') None None None None]]\<rparr>
          | UTILITY \<Rightarrow>
              \<lparr>wabaId = None, name = baseName, language = ''en_US'', category = cat,
               subCategory = None, messageSendTtlSeconds = None,
               components =
                 [BodyComponent
                    ''Your order {{1}} for a total of {{2}} is confirmed. The expected delivery is {{3}}.''
                    None
                    (Some \<lparr>header_text = None, header_url = None,
                           body_text = Some [[''ORDER-5555'', ''99 USD'', ''February 25, 2023'']]\<rparr>)]\<rparr>
          | MARKETING \<Rightarrow>
              \<lparr>wabaId = None, name = baseName, language = ''en_US'', category = cat,
               subCategory = None, messageSendTtlSeconds = None,
               components =
                 [HeaderComponent (Some IMAGE) None
                    (Some \<lparr>header_text = None,
                           header_url = Some [''https://example.com/image.jpg''],
                           body_text = None\<rparr>),
                  BodyComponent
                    ''Hi {{1}}, check out our amazing deals! Get {{2}} off your next purchase.''
                    None
                    (Some \<lparr>header_text = None, header_url = None,
                           body_text = Some [[''John'', ''20%'']]\<rparr>),
                  FooterComponent ''Limited time offer'' None,
                  ButtonsComponent
                    [URLButton ''Shop Now'' ''https://example.com/shop'' None,
                     QuickReplyButton ''Learn More'']]\<rparr>))"

section \<open>The variable-sequencing refinement of the schema\<close>

text \<open>
  The first \<^verbatim>\<open>refine\<close> of \<^verbatim>\<open>createTextValidator\<close> in
  \<^verbatim>\<open>template-schema.ts\<close>. Its loop is the loop of \<^verbatim>\<open>validateVariablesInText\<close>: it
  returns \<^verbatim>\<open>false\<close> at the first sorted index that is not its position plus one.
\<close>

definition variables_sequential :: "bool \<Rightarrow> string \<Rightarrow> bool" where
  "variables_sequential allowVariables text =
     (if \<not> allowVariables then True
      else
        (let matches = matchAll_variables text
         in if length matches = 0 then True
            else
              (let variables = sort (map parseInt matches)
               in \<not> first_out_of_sequence 0 variables)))"

section \<open>Sample templates\<close>

text \<open>Concrete templates at which the theorems below are evaluated.\<close>

definition location_template :: "string list \<Rightarrow> WhatsAppTemplate" where
  "location_template urls =
     \<lparr>wabaId = None, name = ''store_location'', language = ''en'', category = UTILITY,
      subCategory = None, messageSendTtlSeconds = None,
      components =
        [HeaderComponent (Some LOCATION) None
           (Some \<lparr>header_text = None, header_url = Some urls, body_text = None\<rparr>),
         BodyComponent ''Our store is here.'' None None]\<rparr>"

definition hi_1_3_template :: WhatsAppTemplate where
  "hi_1_3_template =
     \<lparr>wabaId = None, name = ''greeting'', language = ''en'', category = UTILITY,
      subCategory = None, messageSendTtlSeconds = None,
      components = [BodyComponent ''Hi {{1}}, {{3}}'' None None]\<rparr>"

definition two_phone_template :: WhatsAppTemplate where
  "two_phone_template =
     \<lparr>wabaId = None, name = ''call_us'', language = ''en'', category = UTILITY,
      subCategory = None, messageSendTtlSeconds = None,
      components =
        [BodyComponent ''Call us.'' None None,
         ButtonsComponent
           [PhoneButton ''Sales'' ''+15550001'', PhoneButton ''Support'' ''+15550002'']]\<rparr>"

section \<open>Notions used in the proofs\<close>

text \<open>
  Every pass only appends to the three accumulators. \<open>emitted_errors f\<close> is what a pass
  (or a callback of a loop) \<open>f\<close> appends to \<open>errors\<close>: its errors on the empty accumulators.
\<close>

definition emitted_errors :: "(TemplateValidator \<Rightarrow> TemplateValidator) \<Rightarrow> ValidationError list" where
  "emitted_errors f = errors (f empty_validator)"

text \<open>Each accumulator holds diagnostics of its own severity only.\<close>

definition severities_ok :: "TemplateValidator \<Rightarrow> bool" where
  "severities_ok s =
     (list_all (\<lambda>d. severity d = severity_error) (errors s) \<and>
      list_all (\<lambda>d. severity d = severity_warning) (warnings s) \<and>
      list_all (\<lambda>d. severity d = severity_info) (info s))"

section \<open>Every pass appends its own errors\<close>

lemma errors_addError [simp]:
  "errors (addError f m sg l s) =
     errors s @ [\<lparr>field = f, message = m, suggestion = sg, line = l, severity = severity_error\<rparr>]"
  by (simp add: addError_def)

lemma errors_addWarning [simp]: "errors (addWarning f m sg l s) = errors s"
  by (simp add: addWarning_def)

lemma errors_addInfo [simp]: "errors (addInfo f m sg l s) = errors s"
  by (simp add: addInfo_def)

lemma errors_empty_validator [simp]: "errors empty_validator = []"
  by (simp add: empty_validator_def)

lemma errors_fold_append:
  assumes "\<And>x s. errors (g x s) = errors s @ emitted_errors (g x)"
  shows "errors (fold g xs s) = errors s @ concat (map (\<lambda>x. emitted_errors (g x)) xs)"
proof (induction xs arbitrary: s)
  case Nil
  show ?case by simp
next
  case (Cons x xs)
  have "errors (fold g (x # xs) s) = errors (fold g xs (g x s))" by simp
  also have "\<dots> = errors (g x s) @ concat (map (\<lambda>x. emitted_errors (g x)) xs)"
    by (rule Cons.IH)
  also have "errors (g x s) = errors s @ emitted_errors (g x)"
    by (rule assms)
  finally show ?case by simp
qed

lemma errors_validateVariablesInText [simp]:
  "errors (validateVariablesInText tx fld s) =
     errors s @ emitted_errors (validateVariablesInText tx fld)"
  unfolding emitted_errors_def validateVariablesInText_def Let_def by auto

lemma errors_urlVariables_step [simp]:
  "errors (urlVariables_step ib s) = errors s @ emitted_errors (urlVariables_step ib)"
  unfolding emitted_errors_def [of "urlVariables_step ib"] urlVariables_step_def Let_def
  by (auto split: option.splits)

lemmas errors_fold_urlVariables [simp] =
  errors_fold_append [of urlVariables_step, OF errors_urlVariables_step]

lemma errors_variableUsage_step [simp]:
  "errors (variableUsage_step c s) = errors s @ emitted_errors (variableUsage_step c)"
  unfolding emitted_errors_def [of "variableUsage_step c"] variableUsage_step_def Let_def
  by (auto split: option.splits)

lemma errors_validateVariableUsage [simp]:
  "errors (validateVariableUsage t s) =
     errors s @ concat (map (\<lambda>c. emitted_errors (variableUsage_step c)) (components t))"
  unfolding validateVariableUsage_def
  by (rule errors_fold_append [of variableUsage_step, OF errors_variableUsage_step])

lemma errors_validateTextLength [simp]:
  "errors (validateTextLength tx n fld s) =
     errors s @ emitted_errors (validateTextLength tx n fld)"
  unfolding emitted_errors_def validateTextLength_def Let_def by auto

lemma errors_buttonTextLength_step [simp]:
  "errors (buttonTextLength_step ib s) = errors s @ emitted_errors (buttonTextLength_step ib)"
  unfolding emitted_errors_def [of "buttonTextLength_step ib"] buttonTextLength_step_def Let_def
  by (auto split: option.splits)

lemmas errors_fold_buttonTextLength [simp] =
  errors_fold_append [of buttonTextLength_step, OF errors_buttonTextLength_step]

lemma errors_characterLimits_step [simp]:
  "errors (characterLimits_step c s) = errors s @ emitted_errors (characterLimits_step c)"
  unfolding emitted_errors_def [of "characterLimits_step c"]
  by (cases c) (auto split: option.splits)

lemma errors_validateCharacterLimits [simp]:
  "errors (validateCharacterLimits t s) =
     errors s @ concat (map (\<lambda>c. emitted_errors (characterLimits_step c)) (components t))"
  unfolding validateCharacterLimits_def
  by (rule errors_fold_append [of characterLimits_step, OF errors_characterLimits_step])

lemma errors_otpRequirements_step [simp]:
  "errors (otpRequirements_step ib s) = errors s @ emitted_errors (otpRequirements_step ib)"
  unfolding emitted_errors_def otpRequirements_step_def Let_def by auto

lemmas errors_fold_otpRequirements [simp] =
  errors_fold_append [of otpRequirements_step, OF errors_otpRequirements_step]


lemma errors_validateComponentCombinations [simp]:
  "errors (validateComponentCombinations t s) =
     errors s @ emitted_errors (validateComponentCombinations t)"
  unfolding emitted_errors_def [of "validateComponentCombinations t"]
    validateComponentCombinations_def Let_def
  apply (cases "find (is_type HEADER) (components t)"; cases "find (is_type BUTTONS) (components t)")
  apply (simp_all split: option.splits)
  apply auto
  done

lemma errors_componentOrder_fold [simp]:
  "errors (snd (fold componentOrder_step xs (l, s))) = errors s"
  by (induction xs arbitrary: l s) (auto simp: componentOrder_step_def Let_def)

lemma errors_validateBasicStructure [simp]:
  "errors (validateBasicStructure t s) =
     errors s @ emitted_errors (validateBasicStructure t)"
  unfolding emitted_errors_def validateBasicStructure_def Let_def
  by auto

lemma errors_validateUtilityTemplate [simp]:
  "errors (validateUtilityTemplate t s) =
     errors s @ emitted_errors (validateUtilityTemplate t)"
  unfolding emitted_errors_def validateUtilityTemplate_def Let_def
  by (simp split: option.splits)

lemma errors_validateMarketingTemplate [simp]:
  "errors (validateMarketingTemplate t s) =
     errors s @ emitted_errors (validateMarketingTemplate t)"
  unfolding emitted_errors_def validateMarketingTemplate_def Let_def
  by (simp split: option.splits)

lemma errors_validateAuthenticationTemplate [simp]:
  "errors (validateAuthenticationTemplate t s) =
     errors s @ emitted_errors (validateAuthenticationTemplate t)"
  unfolding emitted_errors_def validateAuthenticationTemplate_def Let_def
  by (simp split: option.splits)

lemma errors_validateCategorySpecificRules [simp]:
  "errors (validateCategorySpecificRules t s) =
     errors s @ emitted_errors (validateCategorySpecificRules t)"
  unfolding emitted_errors_def [of "validateCategorySpecificRules t"]
    validateCategorySpecificRules_def
  by (cases "category t") simp_all

lemma errors_validateButtonCombinations [simp]:
  "errors (validateButtonCombinations t s) =
     errors s @ emitted_errors (validateButtonCombinations t)"
  unfolding emitted_errors_def validateButtonCombinations_def Let_def
  by (simp split: option.splits)

lemma errors_validateMediaRequirements [simp]:
  "errors (validateMediaRequirements t s) =
     errors s @ emitted_errors (validateMediaRequirements t)"
  unfolding emitted_errors_def validateMediaRequirements_def Let_def
  by (simp split: option.splits list.splits HeaderFormat.splits)

lemma errors_validateTTLSettings [simp]:
  "errors (validateTTLSettings t s) =
     errors s @ emitted_errors (validateTTLSettings t)"
  unfolding emitted_errors_def validateTTLSettings_def Let_def
  by (simp split: option.splits)

lemma errors_run_passes:
  "errors (run_passes t) =
     emitted_errors (validateBasicStructure t) @
     emitted_errors (validateCategorySpecificRules t) @
     emitted_errors (validateComponentCombinations t) @
     emitted_errors (validateVariableUsage t) @
     emitted_errors (validateCharacterLimits t) @
     emitted_errors (validateButtonCombinations t) @
     emitted_errors (validateMediaRequirements t) @
     emitted_errors (validateTTLSettings t)"
  unfolding run_passes_def emitted_errors_def [of "validateVariableUsage t"]
    emitted_errors_def [of "validateCharacterLimits t"]
  by simp

section \<open>The severities of the three accumulators\<close>

lemma severities_ok_empty [simp]: "severities_ok empty_validator"
  by (simp add: severities_ok_def empty_validator_def)

lemma severities_ok_addError [simp]: "severities_ok (addError f m sg l s) = severities_ok s"
  by (simp add: severities_ok_def addError_def)

lemma severities_ok_addWarning [simp]: "severities_ok (addWarning f m sg l s) = severities_ok s"
  by (simp add: severities_ok_def addWarning_def)

lemma severities_ok_addInfo [simp]: "severities_ok (addInfo f m sg l s) = severities_ok s"
  by (simp add: severities_ok_def addInfo_def)

lemma severities_ok_fold:
  assumes "\<And>x s. severities_ok (g x s) = severities_ok s"
  shows "severities_ok (fold g xs s) = severities_ok s"
  by (induction xs arbitrary: s) (simp_all add: assms)

lemma severities_ok_validateVariablesInText [simp]:
  "severities_ok (validateVariablesInText tx fld s) = severities_ok s"
  unfolding validateVariablesInText_def Let_def by simp

lemma severities_ok_urlVariables_step [simp]:
  "severities_ok (urlVariables_step ib s) = severities_ok s"
  unfolding urlVariables_step_def Let_def by (simp split: option.splits)

lemmas severities_ok_fold_urlVariables [simp] =
  severities_ok_fold [of urlVariables_step, OF severities_ok_urlVariables_step]

lemma severities_ok_variableUsage_step [simp]:
  "severities_ok (variableUsage_step c s) = severities_ok s"
  unfolding variableUsage_step_def Let_def by (simp split: option.splits)

lemma severities_ok_validateVariableUsage [simp]:
  "severities_ok (validateVariableUsage t s) = severities_ok s"
  unfolding validateVariableUsage_def
  by (rule severities_ok_fold [of variableUsage_step, OF severities_ok_variableUsage_step])

lemma severities_ok_validateTextLength [simp]:
  "severities_ok (validateTextLength tx n fld s) = severities_ok s"
  unfolding validateTextLength_def Let_def by simp

lemma severities_ok_buttonTextLength_step [simp]:
  "severities_ok (buttonTextLength_step ib s) = severities_ok s"
  unfolding buttonTextLength_step_def Let_def by (simp split: option.splits)

lemmas severities_ok_fold_buttonTextLength [simp] =
  severities_ok_fold [of buttonTextLength_step, OF severities_ok_buttonTextLength_step]

lemma severities_ok_characterLimits_step [simp]:
  "severities_ok (characterLimits_step c s) = severities_ok s"
  by (cases c) (simp_all split: option.splits)

lemma severities_ok_validateCharacterLimits [simp]:
  "severities_ok (validateCharacterLimits t s) = severities_ok s"
  unfolding validateCharacterLimits_def
  by (rule severities_ok_fold [of characterLimits_step, OF severities_ok_characterLimits_step])

lemma severities_ok_otpRequirements_step [simp]:
  "severities_ok (otpRequirements_step ib s) = severities_ok s"
  unfolding otpRequirements_step_def Let_def by simp

lemmas severities_ok_fold_otpRequirements [simp] =
  severities_ok_fold [of otpRequirements_step, OF severities_ok_otpRequirements_step]

lemma severities_ok_validateComponentCombinations [simp]:
  "severities_ok (validateComponentCombinations t s) = severities_ok s"
  unfolding validateComponentCombinations_def Let_def by (simp split: option.splits)

lemma severities_ok_componentOrder_fold [simp]:
  "severities_ok (snd (fold componentOrder_step xs (l, s))) = severities_ok s"
  by (induction xs arbitrary: l s) (simp_all add: componentOrder_step_def Let_def)

lemma severities_ok_validateBasicStructure [simp]:
  "severities_ok (validateBasicStructure t s) = severities_ok s"
  unfolding validateBasicStructure_def Let_def by simp

lemma severities_ok_validateCategorySpecificRules [simp]:
  "severities_ok (validateCategorySpecificRules t s) = severities_ok s"
  unfolding validateCategorySpecificRules_def validateAuthenticationTemplate_def
    validateUtilityTemplate_def validateMarketingTemplate_def Let_def
  by (cases "category t") (simp_all split: option.splits)

lemma severities_ok_validateButtonCombinations [simp]:
  "severities_ok (validateButtonCombinations t s) = severities_ok s"
  unfolding validateButtonCombinations_def Let_def by (simp split: option.splits)

lemma severities_ok_validateMediaRequirements [simp]:
  "severities_ok (validateMediaRequirements t s) = severities_ok s"
  unfolding validateMediaRequirements_def Let_def
  by (simp split: option.splits list.splits HeaderFormat.splits)

lemma severities_ok_validateTTLSettings [simp]:
  "severities_ok (validateTTLSettings t s) = severities_ok s"
  unfolding validateTTLSettings_def Let_def by (simp split: option.splits)

lemma severities_ok_run_passes: "severities_ok (run_passes t)"
  unfolding run_passes_def by simp

lemma filter_all: "list_all P xs \<Longrightarrow> filter P xs = xs"
  by (induction xs) auto

lemma filter_none: "list_all Q xs \<Longrightarrow> (\<And>x. Q x \<Longrightarrow> \<not> P x) \<Longrightarrow> filter P xs = []"
  by (induction xs) auto

section \<open>The verdict\<close>

text \<open>
  Claim C1. For every template, the result of \<open>validate\<close> has \<open>isValid\<close> true exactly
  when its \<open>errors\<close> sequence is empty. Diagnostics of severity warning and info never
  affect the verdict: \<open>errors\<close> holds the diagnostics of severity error and no other
  sequence holds one, so \<open>isValid\<close> is true exactly when the whole report has no
  diagnostic of severity error.
\<close>

theorem validate_isValid_iff_no_errors:
  "isValid (validate t) = (errors (validate t) = []) \<and>
   isValid (validate t) =
     (filter (\<lambda>d. severity d = severity_error)
        (errors (validate t) @ warnings (validate t) @ info (validate t)) = [])"
proof -
  have ok: "severities_ok (run_passes t)"
    by (rule severities_ok_run_passes)
  have e: "filter (\<lambda>d. severity d = severity_error) (errors (run_passes t)) = errors (run_passes t)"
    using ok by (simp add: severities_ok_def filter_all)
  have w: "filter (\<lambda>d. severity d = severity_error) (warnings (run_passes t)) = []"
    using ok by (intro filter_none [where Q = "\<lambda>d. severity d = severity_warning"])
      (simp_all add: severities_ok_def)
  have i: "filter (\<lambda>d. severity d = severity_error) (info (run_passes t)) = []"
    using ok by (intro filter_none [where Q = "\<lambda>d. severity d = severity_info"])
      (simp_all add: severities_ok_def)
  show ?thesis
    by (simp add: validate_def Let_def e w i)
qed

section \<open>The position mapper\<close>

lemma split_newline_not_Nil [simp]: "split_newline s \<noteq> []"
  by (induction s) (auto split: list.splits)

lemma length_split_newline: "length (split_newline s) = 1 + count_list s newline"
  by (induction s) (auto split: list.splits)

lemma split_newline_no_newline: "newline \<notin> set s \<Longrightarrow> split_newline s = [s]"
  by (induction s) auto

lemma last_split_newline:
  "last (split_newline s) = rev (takeWhile (\<lambda>c. c \<noteq> newline) (rev s))"
proof (induction s)
  case Nil
  show ?case by simp
next
  case (Cons c cs)
  show ?case
  proof (cases "newline \<in> set cs")
    case True
    then have tw: "takeWhile (\<lambda>c. c \<noteq> newline) (rev cs @ [c]) =
                   takeWhile (\<lambda>c. c \<noteq> newline) (rev cs)"
      by (intro takeWhile_append1 [of newline]) auto
    from True have "count_list cs newline \<noteq> 0"
      by (simp add: count_list_0_iff)
    then have "length (split_newline cs) \<noteq> 1"
      by (simp add: length_split_newline)
    then obtain l l' ls where sp: "split_newline cs = l # l' # ls"
      by (cases "split_newline cs" rule: list.exhaust; cases "tl (split_newline cs)") auto
    show ?thesis
      using Cons.IH sp tw by (auto split: list.splits)
  next
    case False
    then have sp: "split_newline cs = [cs]"
      by (rule split_newline_no_newline)
    from False have tw: "takeWhile (\<lambda>c. c \<noteq> newline) (rev cs) = rev cs"
      by (auto simp: takeWhile_eq_all_conv)
    show ?thesis
      using sp tw False by (auto simp: takeWhile_append)
  qed
qed

text \<open>
  Claim C8. For every text and every offset \<open>position\<close> with
  \<open>0 \<le> position \<le> length text\<close>, \<open>getLineAndColumn\<close> returns as line one plus the
  number of newline characters among the first \<open>position\<close> characters, and as column one
  plus the number of characters between the last such newline (or the start of the text
  when there is none) and the offset.
\<close>

theorem getLineAndColumn_counts_newlines:
  assumes "0 \<le> position" and "position \<le> int (length text)"
  shows "getLineAndColumn text position =
           (1 + count_list (take (nat position) text) newline,
            1 + length (takeWhile (\<lambda>c. c \<noteq> newline) (rev (take (nat position) text))))"
proof -
  have sub: "substring0 text position = take (nat position) text"
    using assms by (simp add: substring0_def min_def max_def)
  define L where "L = split_newline (take (nat position) text)"
  have ne: "L \<noteq> []"
    by (simp add: L_def)
  have "L ! (length L - 1) = last L"
    using ne by (simp add: last_conv_nth)
  moreover obtain x xs where "L = x # xs"
    using ne by (cases L) auto
  ultimately have c: "(case L of [] \<Rightarrow> 1 | _ # _ \<Rightarrow> length (L ! (length L - 1)) + 1) =
                      length (last L) + 1"
    by (simp only: list.case)
  have "getLineAndColumn text position = (length L, length (last L) + 1)"
    unfolding getLineAndColumn_def sub Let_def L_def [symmetric] c ..
  then show ?thesis
    by (simp add: L_def length_split_newline last_split_newline)
qed

theorem getLineAndColumn_counts_newlines_witness:
  "(0::int) \<le> 4 \<and> 4 \<le> int (length (''ab'' @ [newline] @ ''cd'')) \<and>
   getLineAndColumn (''ab'' @ [newline] @ ''cd'') 4 = (2, 2)"
  using getLineAndColumn_counts_newlines [of 4 "''ab'' @ [newline] @ ''cd''"]
  by (simp add: newline_def)

section \<open>The variable-sequencing check\<close>

lemma first_out_of_sequence_iff:
  "\<not> first_out_of_sequence i vs \<longleftrightarrow> vs = [Suc i ..< Suc i + length vs]"
proof (induction vs arbitrary: i)
  case Nil
  show ?case by simp
next
  case (Cons v vs)
  have "[Suc i ..< Suc i + length (v # vs)] = Suc i # [Suc (Suc i) ..< Suc (Suc i) + length vs]"
    by (simp add: upt_rec)
  with Cons.IH [of "Suc i"] show ?case by auto
qed

lemma sorted_indices_iff:
  fixes vs :: "nat list"
  shows "sort vs = [Suc 0 ..< Suc (length vs)] \<longleftrightarrow> distinct vs \<and> set vs = {1 .. length vs}"
proof
  assume a: "sort vs = [Suc 0 ..< Suc (length vs)]"
  have "distinct (sort vs)" unfolding a by simp
  moreover have "set (sort vs) = {1 .. length vs}" unfolding a by auto
  ultimately show "distinct vs \<and> set vs = {1 .. length vs}" by simp
next
  assume b: "distinct vs \<and> set vs = {1 .. length vs}"
  show "sort vs = [Suc 0 ..< Suc (length vs)]"
  proof (rule sorted_distinct_set_unique)
    show "sorted (sort vs)" by simp
    show "distinct (sort vs)" using b by simp
    show "sorted [Suc 0 ..< Suc (length vs)]" by (rule sorted_upt)
    show "distinct [Suc 0 ..< Suc (length vs)]" by (rule distinct_upt)
    show "set (sort vs) = set [Suc 0 ..< Suc (length vs)]"
      using b by (auto simp del: upt_Suc)
  qed
qed

lemma in_sequence_iff:
  "\<not> first_out_of_sequence 0 (sort vs) \<longleftrightarrow> distinct vs \<and> set vs = {1 .. length vs}"
  using first_out_of_sequence_iff [of 0 "sort vs"] sorted_indices_iff [of vs] by simp

text \<open>
  Claim C3, as the code has it. The sequencing check of the schema sorts the indices of
  all placeholder occurrences, repetitions included, and accepts the text exactly when
  the sorted list is \<open>1, 2, \<dots>, n\<close> for the \<open>n\<close> occurrences: that is, when no index is
  repeated and the indices are \<open>1..n\<close> without a gap.
\<close>

theorem variables_sequential_iff:
  "(variables_sequential True text \<longleftrightarrow>
      sort (map parseInt (matchAll_variables text)) =
        [1 ..< Suc (length (matchAll_variables text))]) \<and>
   (variables_sequential True text \<longleftrightarrow>
      distinct (map parseInt (matchAll_variables text)) \<and>
      set (map parseInt (matchAll_variables text)) =
        {1 .. length (matchAll_variables text)})"
proof -
  let ?vs = "map parseInt (matchAll_variables text)"
  have v: "variables_sequential True text \<longleftrightarrow> \<not> first_out_of_sequence 0 (sort ?vs)"
    by (auto simp: variables_sequential_def Let_def)
  have "\<not> first_out_of_sequence 0 (sort ?vs) \<longleftrightarrow> sort ?vs = [1 ..< Suc (length ?vs)]"
    using first_out_of_sequence_iff [of 0 "sort ?vs"] by simp
  with v in_sequence_iff [of ?vs] show ?thesis
    by simp
qed

text \<open>
  Claim C3 as stated fails: the distinct indices of \<^verbatim>\<open>{{1}}{{1}}\<close>, sorted, are the run
  \<open>1..1\<close>, and the check rejects the text.
\<close>

theorem repeated_index_rejected_by_schema:
  "sort (remdups (map parseInt (matchAll_variables ''{{1}}{{1}}''))) = [1 ..< Suc 1] \<and>
   \<not> variables_sequential True ''{{1}}{{1}}''"
  by code_simp

section \<open>The fields of the errors of each pass\<close>

lemma emitted_errors_fold:
  assumes "\<And>x s. errors (g x s) = errors s @ emitted_errors (g x)"
  shows "emitted_errors (fold g xs) = concat (map (\<lambda>x. emitted_errors (g x)) xs)"
  using errors_fold_append [of g xs empty_validator, OF assms]
  by (simp add: emitted_errors_def)

lemma field_validateVariablesInText:
  "d \<in> set (emitted_errors (validateVariablesInText tx fld)) \<Longrightarrow> field d = fld"
  unfolding emitted_errors_def validateVariablesInText_def Let_def
  by (auto split: if_splits)

lemma field_validateTextLength:
  "d \<in> set (emitted_errors (validateTextLength tx n fld)) \<Longrightarrow> field d = fld"
  unfolding emitted_errors_def validateTextLength_def Let_def
  by (auto split: if_splits)

lemma field_urlVariables_step:
  "d \<in> set (emitted_errors (urlVariables_step ib)) \<Longrightarrow>
     field d = ''buttons['' @ string_of_nat (fst ib) @ ''].url''"
  unfolding emitted_errors_def [of "urlVariables_step ib"] urlVariables_step_def Let_def
  by (auto split: if_splits option.splits dest: field_validateVariablesInText)

lemma field_variableUsage_step:
  assumes "d \<in> set (emitted_errors (variableUsage_step c))"
  shows "field d \<noteq> ''messageSendTtlSeconds'' \<and> field d \<noteq> ''header.example.header_url''"
proof -
  have lower: "toLowerCase (ComponentType_string (component_type c)) @ ''.text'' \<in>
                 {''header.text'', ''body.text'', ''footer.text'', ''buttons.text''}"
    by (cases c) (simp_all add: toLowerCase_def toLowerCase_char_def)
  from assms show ?thesis
    unfolding emitted_errors_def [of "variableUsage_step c"] variableUsage_step_def Let_def
    using lower
    by (auto split: if_splits option.splits
        dest!: field_validateVariablesInText field_urlVariables_step)
qed

lemma field_validateVariableUsage:
  assumes "d \<in> set (emitted_errors (validateVariableUsage t))"
  shows "field d \<noteq> ''messageSendTtlSeconds'' \<and> field d \<noteq> ''header.example.header_url''"
  using assms field_variableUsage_step
  unfolding emitted_errors_def [of "validateVariableUsage t"]
  by auto

lemma field_buttonTextLength_step:
  "d \<in> set (emitted_errors (buttonTextLength_step ib)) \<Longrightarrow>
     field d = ''buttons['' @ string_of_nat (fst ib) @ ''].text''"
  unfolding emitted_errors_def [of "buttonTextLength_step ib"] buttonTextLength_step_def Let_def
  by (auto split: if_splits option.splits dest: field_validateTextLength)

lemma field_characterLimits_step:
  assumes "d \<in> set (emitted_errors (characterLimits_step c))"
  shows "field d \<noteq> ''messageSendTtlSeconds'' \<and> field d \<noteq> ''header.example.header_url''"
  using assms
  unfolding emitted_errors_def [of "characterLimits_step c"]
  by (cases c)
    (auto split: if_splits option.splits
      dest!: field_validateTextLength field_buttonTextLength_step)

lemma field_validateCharacterLimits:
  assumes "d \<in> set (emitted_errors (validateCharacterLimits t))"
  shows "field d \<noteq> ''messageSendTtlSeconds'' \<and> field d \<noteq> ''header.example.header_url''"
  using assms field_characterLimits_step
  unfolding emitted_errors_def [of "validateCharacterLimits t"]
  by auto


lemma field_otpRequirements_step:
  "d \<in> set (emitted_errors (otpRequirements_step ib)) \<Longrightarrow>
     field d = ''buttons['' @ string_of_nat (fst ib) @ ''].package_name'' \<or>
     field d = ''buttons['' @ string_of_nat (fst ib) @ ''].zero_tap_terms_accepted''"
  unfolding emitted_errors_def otpRequirements_step_def Let_def
  by (auto split: if_splits)

lemma field_validateComponentCombinations:
  assumes "d \<in> set (emitted_errors (validateComponentCombinations t))"
  shows "field d \<noteq> ''messageSendTtlSeconds''"
  using assms
  unfolding emitted_errors_def [of "validateComponentCombinations t"]
    validateComponentCombinations_def Let_def
  by (auto split: if_splits option.splits dest!: field_otpRequirements_step)

lemma field_validateBasicStructure:
  assumes "d \<in> set (emitted_errors (validateBasicStructure t))"
  shows "field d \<noteq> ''messageSendTtlSeconds'' \<and> field d \<noteq> ''header.example.header_url''"
  using assms
  unfolding emitted_errors_def validateBasicStructure_def Let_def
  by (auto split: if_splits)

lemma emitted_errors_validateCategorySpecificRules:
  "emitted_errors (validateCategorySpecificRules t) =
     (case category t of
        AUTHENTICATION \<Rightarrow>
          if ttl_outside (messageSendTtlSeconds t) 30 900 then
            [\<lparr>field = ''messageSendTtlSeconds'',
              message = ''Authentication templates TTL must be between 30 seconds and 15 minutes (900 seconds)'',
              suggestion = Some ''Set TTL between 30 and 900 seconds'', line = None,
              severity = severity_error\<rparr>]
          else []
      | UTILITY \<Rightarrow>
          if ttl_outside (messageSendTtlSeconds t) 30 43200 then
            [\<lparr>field = ''messageSendTtlSeconds'',
              message = ''Utility templates TTL must be between 30 seconds and 12 hours (43200 seconds)'',
              suggestion = Some ''Set TTL between 30 and 43200 seconds'', line = None,
              severity = severity_error\<rparr>]
          else []
      | MARKETING \<Rightarrow>
          if ttl_outside (messageSendTtlSeconds t) 43200 2592000 then
            [\<lparr>field = ''messageSendTtlSeconds'',
              message = ''Marketing templates TTL must be between 12 hours (43200 seconds) and 30 days (2592000 seconds)'',
              suggestion = Some ''Set TTL between 43200 and 2592000 seconds'', line = None,
              severity = severity_error\<rparr>]
          else [])"
  unfolding emitted_errors_def validateCategorySpecificRules_def validateAuthenticationTemplate_def
    validateUtilityTemplate_def validateMarketingTemplate_def Let_def
  by (cases "category t") (simp_all split: option.splits)

lemma field_validateCategorySpecificRules:
  assumes "d \<in> set (emitted_errors (validateCategorySpecificRules t))"
  shows "field d \<noteq> ''header.example.header_url''"
  using assms unfolding emitted_errors_validateCategorySpecificRules
  by (cases "category t") (auto split: if_splits)

lemma field_validateButtonCombinations:
  assumes "d \<in> set (emitted_errors (validateButtonCombinations t))"
  shows "field d = ''buttons''"
  using assms
  unfolding emitted_errors_def validateButtonCombinations_def Let_def
  by (auto split: if_splits option.splits)

lemma field_validateMediaRequirements:
  assumes "d \<in> set (emitted_errors (validateMediaRequirements t))"
  shows "field d = ''header.example.header_url''"
  using assms
  unfolding emitted_errors_def validateMediaRequirements_def Let_def
  by (auto split: if_splits option.splits list.splits HeaderFormat.splits)

lemma emitted_errors_validateTTLSettings:
  "emitted_errors (validateTTLSettings t) =
     (case messageSendTtlSeconds t of
        None \<Rightarrow> []
      | Some ttl \<Rightarrow>
          if ttl = 0 then []
          else
            (if ttl < 30 then
               [\<lparr>field = ''messageSendTtlSeconds'', message = ''TTL cannot be less than 30 seconds'',
                 suggestion = Some ''Set TTL to at least 30 seconds'', line = None,
                 severity = severity_error\<rparr>]
             else []) @
            (if ttl > 2592000 then
               [\<lparr>field = ''messageSendTtlSeconds'',
                 message = ''TTL cannot exceed 30 days (2592000 seconds)'',
                 suggestion = Some ''Set TTL to maximum 2592000 seconds'', line = None,
                 severity = severity_error\<rparr>]
             else []))"
  unfolding emitted_errors_def validateTTLSettings_def Let_def
  by (simp split: option.splits)

lemma field_validateTTLSettings:
  assumes "d \<in> set (emitted_errors (validateTTLSettings t))"
  shows "field d = ''messageSendTtlSeconds''"
  using assms unfolding emitted_errors_validateTTLSettings
  by (auto split: if_splits option.splits)

lemma filter_field_empty:
  assumes "\<And>d. d \<in> set xs \<Longrightarrow> field d \<noteq> f"
  shows "filter (\<lambda>d. field d = f) xs = []"
  using assms by (induction xs) auto

lemma errors_validate [simp]: "errors (validate t) = errors (run_passes t)"
  by (simp add: validate_def Let_def)

lemma ttl_errors_run_passes:
  "filter (\<lambda>d. field d = ''messageSendTtlSeconds'') (errors (run_passes t)) =
     filter (\<lambda>d. field d = ''messageSendTtlSeconds'')
       (emitted_errors (validateCategorySpecificRules t)) @
     filter (\<lambda>d. field d = ''messageSendTtlSeconds'') (emitted_errors (validateTTLSettings t))"
proof -
  have "filter (\<lambda>d. field d = ''messageSendTtlSeconds'') (emitted_errors (validateBasicStructure t)) = []"
    by (rule filter_field_empty) (use field_validateBasicStructure in blast)
  moreover have "filter (\<lambda>d. field d = ''messageSendTtlSeconds'')
      (emitted_errors (validateComponentCombinations t)) = []"
    by (rule filter_field_empty) (use field_validateComponentCombinations in blast)
  moreover have "filter (\<lambda>d. field d = ''messageSendTtlSeconds'')
      (emitted_errors (validateVariableUsage t)) = []"
    by (rule filter_field_empty) (use field_validateVariableUsage in blast)
  moreover have "filter (\<lambda>d. field d = ''messageSendTtlSeconds'')
      (emitted_errors (validateCharacterLimits t)) = []"
    by (rule filter_field_empty) (use field_validateCharacterLimits in blast)
  moreover have "filter (\<lambda>d. field d = ''messageSendTtlSeconds'')
      (emitted_errors (validateButtonCombinations t)) = []"
    by (rule filter_field_empty) (use field_validateButtonCombinations in force)
  moreover have "filter (\<lambda>d. field d = ''messageSendTtlSeconds'')
      (emitted_errors (validateMediaRequirements t)) = []"
    by (rule filter_field_empty) (use field_validateMediaRequirements in force)
  ultimately show ?thesis
    by (simp add: errors_run_passes)
qed

section \<open>TTL windows\<close>

text \<open>
  Claim C5. For every template with category AUTHENTICATION and
  \<open>messageSendTtlSeconds = 1000\<close>, the report of \<open>validate\<close> holds exactly one error
  whose field is \<open>messageSendTtlSeconds\<close>: the one of the category pass, which rejects a
  TTL outside \<open>[30, 900]\<close>. The general TTL pass, which rejects a TTL outside
  \<open>[30, 2592000]\<close>, adds no error.
\<close>

theorem authentication_ttl_1000_one_error:
  assumes "category t = AUTHENTICATION" and "messageSendTtlSeconds t = Some 1000"
  shows "filter (\<lambda>d. field d = ''messageSendTtlSeconds'') (errors (validate t)) =
           [\<lparr>field = ''messageSendTtlSeconds'',
             message = ''Authentication templates TTL must be between 30 seconds and 15 minutes (900 seconds)'',
             suggestion = Some ''Set TTL between 30 and 900 seconds'', line = None,
             severity = severity_error\<rparr>] \<and>
         errors (validateTTLSettings t s) = errors s"
  using assms
  by (simp add: ttl_errors_run_passes emitted_errors_validateCategorySpecificRules
      emitted_errors_validateTTLSettings ttl_outside_def)

text \<open>The AUTHENTICATION example of the repository, with its TTL set to 1000.\<close>

theorem authentication_ttl_1000_one_error_witness:
  "category ((generateExampleTemplate AUTHENTICATION)\<lparr>messageSendTtlSeconds := Some 1000\<rparr>) = AUTHENTICATION \<and>
   messageSendTtlSeconds ((generateExampleTemplate AUTHENTICATION)\<lparr>messageSendTtlSeconds := Some 1000\<rparr>) = Some 1000 \<and>
   length (filter (\<lambda>d. field d = ''messageSendTtlSeconds'')
     (errors (validate ((generateExampleTemplate AUTHENTICATION)\<lparr>messageSendTtlSeconds := Some 1000\<rparr>)))) = 1"
  using authentication_ttl_1000_one_error
    [of "(generateExampleTemplate AUTHENTICATION)\<lparr>messageSendTtlSeconds := Some 1000\<rparr>"]
  by (simp add: generateExampleTemplate_def)


lemma zero_ttl_validateCategorySpecificRules:
  assumes "messageSendTtlSeconds t = Some 0"
  shows "validateCategorySpecificRules t s =
           validateCategorySpecificRules (t\<lparr>messageSendTtlSeconds := None\<rparr>) s"
  using assms
  by (cases "category t")
    (simp_all add: validateCategorySpecificRules_def validateAuthenticationTemplate_def
      validateUtilityTemplate_def validateMarketingTemplate_def ttl_outside_def)

lemma zero_ttl_validateTTLSettings:
  assumes "messageSendTtlSeconds t = Some 0"
  shows "validateTTLSettings t s = validateTTLSettings (t\<lparr>messageSendTtlSeconds := None\<rparr>) s"
  using assms by (simp add: validateTTLSettings_def)

lemma zero_ttl_run_passes:
  assumes "messageSendTtlSeconds t = Some 0"
  shows "run_passes t = run_passes (t\<lparr>messageSendTtlSeconds := None\<rparr>)"
proof -
  have "validateBasicStructure (t\<lparr>messageSendTtlSeconds := None\<rparr>) = validateBasicStructure t"
    by (rule ext) (simp add: validateBasicStructure_def)
  moreover have "validateComponentCombinations (t\<lparr>messageSendTtlSeconds := None\<rparr>) =
      validateComponentCombinations t"
    by (rule ext) (simp add: validateComponentCombinations_def)
  moreover have "validateVariableUsage (t\<lparr>messageSendTtlSeconds := None\<rparr>) = validateVariableUsage t"
    by (rule ext) (simp add: validateVariableUsage_def)
  moreover have "validateCharacterLimits (t\<lparr>messageSendTtlSeconds := None\<rparr>) =
      validateCharacterLimits t"
    by (rule ext) (simp add: validateCharacterLimits_def)
  moreover have "validateButtonCombinations (t\<lparr>messageSendTtlSeconds := None\<rparr>) =
      validateButtonCombinations t"
    by (rule ext) (simp add: validateButtonCombinations_def)
  moreover have "validateMediaRequirements (t\<lparr>messageSendTtlSeconds := None\<rparr>) =
      validateMediaRequirements t"
    by (rule ext) (simp add: validateMediaRequirements_def)
  ultimately show ?thesis
    unfolding run_passes_def
    by (simp only: zero_ttl_validateCategorySpecificRules [OF assms]
        zero_ttl_validateTTLSettings [OF assms])
qed

text \<open>
  Claim C10. For every template whose \<open>messageSendTtlSeconds\<close> is present with value 0,
  \<open>validate\<close> treats the TTL as absent: the report is the report of the template
  without a TTL, the TTL-settings pass adds the info diagnostic that suggests setting a
  TTL and nothing else, the category pass adds no error, and the report has no error
  whose field is \<open>messageSendTtlSeconds\<close>.
\<close>

theorem zero_ttl_treated_as_absent:
  assumes "messageSendTtlSeconds t = Some 0"
  shows "validate t = validate (t\<lparr>messageSendTtlSeconds := None\<rparr>) \<and>
         validateTTLSettings t s =
           addInfo ''messageSendTtlSeconds''
             ''Consider setting a TTL (time-to-live) for your template''
             (Some ''Add messageSendTtlSeconds based on your template category'') None s \<and>
         errors (validateCategorySpecificRules t s) = errors s \<and>
         filter (\<lambda>d. field d = ''messageSendTtlSeconds'') (errors (validate t)) = []"
proof -
  have "validate t = validate (t\<lparr>messageSendTtlSeconds := None\<rparr>)"
    by (simp only: validate_def zero_ttl_run_passes [OF assms])
  moreover have "validateTTLSettings t s =
      addInfo ''messageSendTtlSeconds''
        ''Consider setting a TTL (time-to-live) for your template''
        (Some ''Add messageSendTtlSeconds based on your template category'') None s"
    using assms by (simp add: validateTTLSettings_def)
  moreover have "errors (validateCategorySpecificRules t s) = errors s"
    using assms
    by (simp add: emitted_errors_validateCategorySpecificRules ttl_outside_def
        split: TemplateCategory.splits)
  moreover have "filter (\<lambda>d. field d = ''messageSendTtlSeconds'') (errors (validate t)) = []"
    using assms
    by (simp add: ttl_errors_run_passes emitted_errors_validateCategorySpecificRules
        emitted_errors_validateTTLSettings ttl_outside_def split: TemplateCategory.splits)
  ultimately show ?thesis by blast
qed

text \<open>The AUTHENTICATION example of the repository, with its TTL set to 0.\<close>

theorem zero_ttl_treated_as_absent_witness:
  "messageSendTtlSeconds ((generateExampleTemplate AUTHENTICATION)\<lparr>messageSendTtlSeconds := Some 0\<rparr>) = Some 0 \<and>
   validate ((generateExampleTemplate AUTHENTICATION)\<lparr>messageSendTtlSeconds := Some 0\<rparr>) =
     validate ((generateExampleTemplate AUTHENTICATION)\<lparr>messageSendTtlSeconds := None\<rparr>) \<and>
   filter (\<lambda>d. field d = ''messageSendTtlSeconds'')
     (errors (validate ((generateExampleTemplate AUTHENTICATION)\<lparr>messageSendTtlSeconds := Some 0\<rparr>))) = []"
proof -
  have h: "messageSendTtlSeconds
      ((generateExampleTemplate AUTHENTICATION)\<lparr>messageSendTtlSeconds := Some 0\<rparr>) = Some 0"
    by simp
  have u: "(generateExampleTemplate AUTHENTICATION)
             \<lparr>messageSendTtlSeconds := Some 0, messageSendTtlSeconds := None\<rparr> =
           (generateExampleTemplate AUTHENTICATION)\<lparr>messageSendTtlSeconds := None\<rparr>"
    by simp
  from h zero_ttl_treated_as_absent [OF h, of empty_validator, unfolded u] show ?thesis
    by blast
qed

section \<open>Button combinations\<close>

lemma find_unique:
  assumes "c \<in> set xs" and "P c" and "length (filter P xs) \<le> 1"
  shows "find P xs = Some c"
  using assms
proof (induction xs)
  case Nil
  then show ?case by simp
next
  case (Cons x xs)
  show ?case
  proof (cases "P x")
    case True
    with Cons.prems have "filter P xs = []" by simp
    with Cons.prems have "c = x" by (auto simp: filter_empty_conv)
    with True show ?thesis by simp
  next
    case False
    with Cons show ?thesis by auto
  qed
qed

lemma counted_fold_countButton:
  "(case fold countButton bs m ty of None \<Rightarrow> 0 | Some k \<Rightarrow> k) =
     (case m ty of None \<Rightarrow> 0 | Some k \<Rightarrow> k) + length (filter (\<lambda>b. button_type b = ty) bs)"
  by (induction bs arbitrary: m) (simp_all add: countButton_def)

lemma count_exceeds_fold_countButton:
  "count_exceeds (fold countButton bs Map.empty ty) n \<longleftrightarrow>
     n < length (filter (\<lambda>b. button_type b = ty) bs)"
  using counted_fold_countButton [of bs Map.empty ty]
  by (simp add: count_exceeds_def split: option.splits)

lemma phone_error_validateButtonCombinations:
  assumes "find (is_type BUTTONS) (components t) = Some (ButtonsComponent buttons)"
    and "1 < length (filter (\<lambda>b. button_type b = PHONE_NUMBER) buttons)"
  shows "\<lparr>field = ''buttons'', message = ''Maximum 1 phone number button allowed'',
           suggestion = Some ''Remove extra phone number buttons'', line = None,
           severity = severity_error\<rparr>
         \<in> set (emitted_errors (validateButtonCombinations t))"
  using assms
  unfolding emitted_errors_def validateButtonCombinations_def Let_def
  by (simp add: count_exceeds_fold_countButton)

text \<open>
  Claim C6. For every template that contains a BUTTONS component with more than one
  button of type PHONE_NUMBER, the report of \<open>validate\<close> holds an error with field
  \<open>buttons\<close>, the one of the button-combinations pass. A template has at most one
  BUTTONS component (the invariant of the data model), so the component is the one the
  pass reads.
\<close>

theorem two_phone_buttons_error:
  assumes "ButtonsComponent buttons \<in> set (components t)"
    and "length (filter (is_type BUTTONS) (components t)) \<le> 1"
    and "1 < length (filter (\<lambda>b. button_type b = PHONE_NUMBER) buttons)"
  shows "\<lparr>field = ''buttons'', message = ''Maximum 1 phone number button allowed'',
           suggestion = Some ''Remove extra phone number buttons'', line = None,
           severity = severity_error\<rparr>
         \<in> set (errors (validate t))"
proof -
  have "find (is_type BUTTONS) (components t) = Some (ButtonsComponent buttons)"
    using assms(1,2) by (intro find_unique) (simp_all add: is_type_def)
  from phone_error_validateButtonCombinations [OF this assms(3)] show ?thesis
    by (simp add: errors_run_passes)
qed

theorem two_phone_buttons_error_witness:
  "ButtonsComponent [PhoneButton ''Sales'' ''+15550001'', PhoneButton ''Support'' ''+15550002'']
     \<in> set (components two_phone_template) \<and>
   length (filter (is_type BUTTONS) (components two_phone_template)) \<le> 1 \<and>
   1 < length (filter (\<lambda>b. button_type b = PHONE_NUMBER)
         [PhoneButton ''Sales'' ''+15550001'', PhoneButton ''Support'' ''+15550002'']) \<and>
   \<lparr>field = ''buttons'', message = ''Maximum 1 phone number button allowed'',
     suggestion = Some ''Remove extra phone number buttons'', line = None,
     severity = severity_error\<rparr>
   \<in> set (errors (validate two_phone_template))"
proof -
  have h1: "ButtonsComponent [PhoneButton ''Sales'' ''+15550001'', PhoneButton ''Support'' ''+15550002'']
     \<in> set (components two_phone_template)"
    by (simp add: two_phone_template_def)
  have h2: "length (filter (is_type BUTTONS) (components two_phone_template)) \<le> 1"
    by (simp add: two_phone_template_def is_type_def)
  have h3: "1 < length (filter (\<lambda>b. button_type b = PHONE_NUMBER)
         [PhoneButton ''Sales'' ''+15550001'', PhoneButton ''Support'' ''+15550002''])"
    by simp
  from h1 h2 h3 two_phone_buttons_error [OF h1 h2 h3] show ?thesis
    by blast
qed

section \<open>Variable usage\<close>

lemma body_text_field: "toLowerCase ''BODY'' @ ''.text'' = ''body.text''"
  by (simp add: toLowerCase_def toLowerCase_char_def)

lemma hi_1_3_validateVariablesInText:
  "emitted_errors (validateVariablesInText ''Hi {{1}}, {{3}}'' ''body.text'') =
     [\<lparr>field = ''body.text'',
       message = ''Variables must be sequential starting from {{1}}. Found: {{1}}, {{3}}'',
       suggestion = Some ''Use variables {{1}}, {{2}}, {{3}}, etc. in sequence'',
       line = None, severity = severity_error\<rparr>]"
  unfolding emitted_errors_def by code_simp

lemma hi_1_3_variableUsage_step:
  "emitted_errors (variableUsage_step (BodyComponent ''Hi {{1}}, {{3}}'' sec ex)) =
     [\<lparr>field = ''body.text'',
       message = ''Variables must be sequential starting from {{1}}. Found: {{1}}, {{3}}'',
       suggestion = Some ''Use variables {{1}}, {{2}}, {{3}}, etc. in sequence'',
       line = None, severity = severity_error\<rparr>]"
  unfolding emitted_errors_def [of "variableUsage_step (BodyComponent ''Hi {{1}}, {{3}}'' sec ex)"]
    variableUsage_step_def Let_def
  by (simp add: body_text_field hi_1_3_validateVariablesInText)

text \<open>
  Claim C7. For every template with a BODY component whose text is
  \<^verbatim>\<open>Hi {{1}}, {{3}}\<close>, \<open>validate\<close> reports an error with field \<open>body.text\<close> whose message
  enumerates the placeholders found: it ends with \<^verbatim>\<open>Found: {{1}}, {{3}}\<close>.
\<close>

theorem body_hi_1_3_error:
  assumes "BodyComponent ''Hi {{1}}, {{3}}'' sec ex \<in> set (components t)"
  shows "\<lparr>field = ''body.text'',
           message = ''Variables must be sequential starting from {{1}}. Found: {{1}}, {{3}}'',
           suggestion = Some ''Use variables {{1}}, {{2}}, {{3}}, etc. in sequence'',
           line = None, severity = severity_error\<rparr>
         \<in> set (errors (validate t))"
proof -
  let ?d = "\<lparr>field = ''body.text'',
           message = ''Variables must be sequential starting from {{1}}. Found: {{1}}, {{3}}'',
           suggestion = Some ''Use variables {{1}}, {{2}}, {{3}}, etc. in sequence'',
           line = None, severity = severity_error\<rparr>"
  have "?d \<in> set (emitted_errors (variableUsage_step (BodyComponent ''Hi {{1}}, {{3}}'' sec ex)))"
    by (simp only: hi_1_3_variableUsage_step) simp
  with assms have "?d \<in> set (emitted_errors (validateVariableUsage t))"
    unfolding emitted_errors_def [of "validateVariableUsage t"]
    by (simp del: set_concat add: set_concat) blast
  then show ?thesis
    by (simp add: errors_run_passes)
qed
theorem body_hi_1_3_error_witness:
  "BodyComponent ''Hi {{1}}, {{3}}'' None None \<in> set (components hi_1_3_template) \<and>
   \<lparr>field = ''body.text'',
     message = ''Variables must be sequential starting from {{1}}. Found: {{1}}, {{3}}'',
     suggestion = Some ''Use variables {{1}}, {{2}}, {{3}}, etc. in sequence'',
     line = None, severity = severity_error\<rparr>
   \<in> set (errors (validate hi_1_3_template))"
proof -
  have h: "BodyComponent ''Hi {{1}}, {{3}}'' None None \<in> set (components hi_1_3_template)"
    by (simp add: hi_1_3_template_def)
  from h body_hi_1_3_error [OF h] show ?thesis
    by blast
qed

text \<open>
  Claim C4, as the code has it. For every text field whose distinct placeholder indices
  are \<open>1..k\<close> and in which some index occurs more than once, \<open>validateVariablesInText\<close>
  adds the duplicate-variables warning for the field and also one error for the field,
  the sequencing error: a repeated index puts the sorted list of indices out of
  sequence.
\<close>

theorem repeated_index_error_and_warning:
  assumes "set (map parseInt (matchAll_variables tx)) = {1 .. k}"
    and "\<not> distinct (map parseInt (matchAll_variables tx))"
  shows "errors (validateVariablesInText tx fld s) =
           errors s @
           [\<lparr>field = fld,
             message = ''Variables must be sequential starting from {{1}}. Found: {{'' @
               join ''}}, {{''
                 (map string_of_nat (sort (map parseInt (matchAll_variables tx)))) @ ''}}'',
             suggestion = Some ''Use variables {{1}}, {{2}}, {{3}}, etc. in sequence'',
             line = None, severity = severity_error\<rparr>] \<and>
         warnings (validateVariablesInText tx fld s) =
           warnings s @
           [\<lparr>field = fld, message = ''Duplicate variables found'',
             suggestion = Some ''Each variable should be used only once per component'',
             line = None, severity = severity_warning\<rparr>]"
proof -
  let ?vs = "map parseInt (matchAll_variables tx)"
  have ne: "matchAll_variables tx \<noteq> []"
    using assms(2) by auto
  have out: "first_out_of_sequence 0 (sort ?vs)"
    using assms(2) in_sequence_iff [of ?vs] by blast
  have "\<not> distinct (sort ?vs)"
    using assms(2) by simp
  then have dup: "length (remdups (sort ?vs)) \<noteq> length (sort ?vs)"
    by (simp only: length_remdups_eq remdups_id_iff_distinct) simp
  show ?thesis
    unfolding validateVariablesInText_def Let_def
    using ne out dup by (simp add: addError_def addWarning_def)
qed

theorem repeated_index_error_and_warning_witness:
  "set (map parseInt (matchAll_variables ''{{1}}{{1}}'')) = {1 .. 1} \<and>
   \<not> distinct (map parseInt (matchAll_variables ''{{1}}{{1}}'')) \<and>
   map field (errors (validateVariablesInText ''{{1}}{{1}}'' ''body.text'' empty_validator)) =
     [''body.text''] \<and>
   map message (warnings (validateVariablesInText ''{{1}}{{1}}'' ''body.text'' empty_validator)) =
     [''Duplicate variables found'']"
proof -
  have l: "map parseInt (matchAll_variables ''{{1}}{{1}}'') = [1, 1]"
    by code_simp
  have h1: "set (map parseInt (matchAll_variables ''{{1}}{{1}}'')) = {1 .. 1}"
    unfolding l by simp
  have h2: "\<not> distinct (map parseInt (matchAll_variables ''{{1}}{{1}}''))"
    unfolding l by simp
  from h1 h2 repeated_index_error_and_warning [OF h1 h2, of "''body.text''" empty_validator]
  show ?thesis
    by (simp add: empty_validator_def)
qed

text \<open>
  Claim C4 as stated fails: for the body text \<^verbatim>\<open>{{1}}{{1}}\<close> the indices are 1 and 1,
  and the pass adds an error for the field.
\<close>

theorem repeated_index_is_an_error:
  "map parseInt (matchAll_variables ''{{1}}{{1}}'') = [1, 1] \<and>
   errors (validateVariablesInText ''{{1}}{{1}}'' ''body.text'' empty_validator) =
     [\<lparr>field = ''body.text'',
       message = ''Variables must be sequential starting from {{1}}. Found: {{1}}, {{1}}'',
       suggestion = Some ''Use variables {{1}}, {{2}}, {{3}}, etc. in sequence'',
       line = None, severity = severity_error\<rparr>]"
  by code_simp

section \<open>Media requirements\<close>

lemma header_url_otpRequirements:
  "filter (\<lambda>d. field d = ''header.example.header_url'')
     (concat (map (\<lambda>ib. emitted_errors (otpRequirements_step ib)) xs)) = []"
  by (rule filter_field_empty) (auto dest!: field_otpRequirements_step)

lemma header_url_validateComponentCombinations:
  assumes "find (is_type HEADER) (components t) = Some (HeaderComponent (Some LOCATION) tx ex)"
  shows "filter (\<lambda>d. field d = ''header.example.header_url'')
           (emitted_errors (validateComponentCombinations t)) =
         (if example_header_url ex = None then
            [\<lparr>field = ''header.example.header_url'',
              message = ''LOCATION header format requires example URL'',
              suggestion = Some ''Add example URL for media header'', line = None,
              severity = severity_error\<rparr>]
          else [])"
  using assms
  unfolding emitted_errors_def [of "validateComponentCombinations t"]
    validateComponentCombinations_def Let_def
  by (simp add: header_url_otpRequirements split: option.splits) auto

lemma header_url_validateMediaRequirements:
  assumes "find (is_type HEADER) (components t) = Some (HeaderComponent (Some LOCATION) tx ex)"
  shows "emitted_errors (validateMediaRequirements t) =
         (case example_header_url ex of
            Some (url # urls) \<Rightarrow>
              if url = [] then
                [\<lparr>field = ''header.example.header_url'',
                  message = ''LOCATION header requires example URL'',
                  suggestion = Some ''Add a valid example URL for the media'', line = None,
                  severity = severity_error\<rparr>]
              else []
          | _ \<Rightarrow>
              [\<lparr>field = ''header.example.header_url'',
                message = ''LOCATION header requires example URL'',
                suggestion = Some ''Add a valid example URL for the media'', line = None,
                severity = severity_error\<rparr>])"
  using assms
  unfolding emitted_errors_def validateMediaRequirements_def Let_def
  by (simp split: option.splits list.splits)

lemma header_url_errors_run_passes:
  "filter (\<lambda>d. field d = ''header.example.header_url'') (errors (run_passes t)) =
     filter (\<lambda>d. field d = ''header.example.header_url'')
       (emitted_errors (validateComponentCombinations t)) @
     emitted_errors (validateMediaRequirements t)"
proof -
  have "filter (\<lambda>d. field d = ''header.example.header_url'')
      (emitted_errors (validateBasicStructure t)) = []"
    by (rule filter_field_empty) (use field_validateBasicStructure in blast)
  moreover have "filter (\<lambda>d. field d = ''header.example.header_url'')
      (emitted_errors (validateCategorySpecificRules t)) = []"
    by (rule filter_field_empty) (use field_validateCategorySpecificRules in blast)
  moreover have "filter (\<lambda>d. field d = ''header.example.header_url'')
      (emitted_errors (validateVariableUsage t)) = []"
    by (rule filter_field_empty) (use field_validateVariableUsage in blast)
  moreover have "filter (\<lambda>d. field d = ''header.example.header_url'')
      (emitted_errors (validateCharacterLimits t)) = []"
    by (rule filter_field_empty) (use field_validateCharacterLimits in blast)
  moreover have "filter (\<lambda>d. field d = ''header.example.header_url'')
      (emitted_errors (validateButtonCombinations t)) = []"
    by (rule filter_field_empty) (use field_validateButtonCombinations in force)
  moreover have "filter (\<lambda>d. field d = ''header.example.header_url'')
      (emitted_errors (validateTTLSettings t)) = []"
    by (rule filter_field_empty) (use field_validateTTLSettings in force)
  moreover have "filter (\<lambda>d. field d = ''header.example.header_url'')
      (emitted_errors (validateMediaRequirements t)) = emitted_errors (validateMediaRequirements t)"
    by (simp add: filter_id_conv field_validateMediaRequirements)
  ultimately show ?thesis
    by (simp add: errors_run_passes)
qed

text \<open>
  Claim C2, as the code has it. For a HEADER with format LOCATION the media-requirements
  pass imposes no extension requirement, and it requires an example URL as it does for
  every format other than TEXT: for every template whose HEADER component has format
  LOCATION, \<open>validate\<close> reports no error with field \<open>header.example.header_url\<close> exactly
  when \<open>example.header_url\<close> of the header has a first entry that is not empty. (A
  template has at most one HEADER component, the invariant of the data model.)
\<close>

theorem location_header_needs_url_only:
  assumes "HeaderComponent (Some LOCATION) tx ex \<in> set (components t)"
    and "length (filter (is_type HEADER) (components t)) \<le> 1"
  shows "(filter (\<lambda>d. field d = ''header.example.header_url'') (errors (validate t)) = []) =
         (case example_header_url ex of Some (url # urls) \<Rightarrow> url \<noteq> [] | _ \<Rightarrow> False)"
proof -
  have "find (is_type HEADER) (components t) = Some (HeaderComponent (Some LOCATION) tx ex)"
    using assms by (intro find_unique) (simp_all add: is_type_def)
  then show ?thesis
    by (simp add: header_url_errors_run_passes header_url_validateComponentCombinations
        header_url_validateMediaRequirements split: option.splits list.splits)
qed

theorem location_header_needs_url_only_witness:
  "HeaderComponent (Some LOCATION) None
     (Some \<lparr>header_text = None, header_url = Some [''https://maps.example.com/store''],
            body_text = None\<rparr>)
     \<in> set (components (location_template [''https://maps.example.com/store''])) \<and>
   length (filter (is_type HEADER)
     (components (location_template [''https://maps.example.com/store'']))) \<le> 1 \<and>
   filter (\<lambda>d. field d = ''header.example.header_url'')
     (errors (validate (location_template [''https://maps.example.com/store'']))) = []"
proof -
  have h1: "HeaderComponent (Some LOCATION) None
     (Some \<lparr>header_text = None, header_url = Some [''https://maps.example.com/store''],
            body_text = None\<rparr>)
     \<in> set (components (location_template [''https://maps.example.com/store'']))"
    by (simp add: location_template_def)
  have h2: "length (filter (is_type HEADER)
     (components (location_template [''https://maps.example.com/store'']))) \<le> 1"
    by (simp add: location_template_def is_type_def)
  from h1 h2 location_header_needs_url_only [OF h1 h2] show ?thesis
    by (simp add: example_header_url_def del: errors_validate)
qed

text \<open>
  Claim C2 as stated fails: a LOCATION header whose \<open>example.header_url\<close> is the empty
  array is reported by the media-requirements pass.
\<close>

theorem location_header_without_url_error:
  "map component_format (components (location_template [])) = [Some LOCATION, None] \<and>
   errors (validate (location_template [])) =
     [\<lparr>field = ''header.example.header_url'',
       message = ''LOCATION header requires example URL'',
       suggestion = Some ''Add a valid example URL for the media'', line = None,
       severity = severity_error\<rparr>]"
  by code_simp
section \<open>The AUTHENTICATION example\<close>

text \<open>
  Claim C9. The AUTHENTICATION example of the repository, with TTL 600 and an OTP
  button of type COPY_CODE, validates with \<open>isValid\<close> true and no error, and each of the
  eight passes adds no error for it.
\<close>

theorem authentication_example_is_valid:
  "messageSendTtlSeconds (generateExampleTemplate AUTHENTICATION) = Some 600 \<and>
   ButtonsComponent [OTPButton OTP_COPY_CODE (Some ''Copy Code'') None None None None]
     \<in> set (components (generateExampleTemplate AUTHENTICATION)) \<and>
   isValid (validate (generateExampleTemplate AUTHENTICATION)) \<and>
   errors (validate (generateExampleTemplate AUTHENTICATION)) = [] \<and>
   errors (validateBasicStructure (generateExampleTemplate AUTHENTICATION) empty_validator) = [] \<and>
   errors (validateCategorySpecificRules (generateExampleTemplate AUTHENTICATION) empty_validator) = [] \<and>
   errors (validateComponentCombinations (generateExampleTemplate AUTHENTICATION) empty_validator) = [] \<and>
   errors (validateVariableUsage (generateExampleTemplate AUTHENTICATION) empty_validator) = [] \<and>
   errors (validateCharacterLimits (generateExampleTemplate AUTHENTICATION) empty_validator) = [] \<and>
   errors (validateButtonCombinations (generateExampleTemplate AUTHENTICATION) empty_validator) = [] \<and>
   errors (validateMediaRequirements (generateExampleTemplate AUTHENTICATION) empty_validator) = [] \<and>
   errors (validateTTLSettings (generateExampleTemplate AUTHENTICATION) empty_validator) = []"
  by code_simp

end
